theory Spec2Isabelle
  imports Complex_Main "HOL-Library.AList" "HOL-Library.Sublist"
begin

section \<open>Weather-Bot: the command router, provider clients and formatters of main.py\<close>

subsection \<open>Python strings\<close>

text \<open>
  A Python \<open>str\<close> is a sequence of Unicode code points; the configured location names are
  Cyrillic, so a string is a list of code points here. \<open>u\<close> embeds an ASCII literal.
\<close>

type_synonym ustr = "nat list"

definition u :: "string \<Rightarrow> ustr" where
  "u s = map of_char s"

text \<open>\<open>str.isspace\<close> for one code point: the white-space code points of CPython.\<close>

definition is_space :: "nat \<Rightarrow> bool" where
  "is_space c \<longleftrightarrow>
     (9 \<le> c \<and> c \<le> 13) \<or> (28 \<le> c \<and> c \<le> 32) \<or> c = 133 \<or> c = 160 \<or> c = 5760 \<or>
     (8192 \<le> c \<and> c \<le> 8202) \<or> c = 8232 \<or> c = 8233 \<or> c = 8239 \<or> c = 8287 \<or> c = 12288"

text \<open>
  \<open>str.lower\<close> and \<open>str.upper\<close>, one code point at a time, on the Basic Latin and Latin-1
  blocks and on the Cyrillic letters U+0400 to U+045F (the alphabets of the configured names
  and of the currency codes). Python's mapping covers the other scripts too; their code
  points are left unchanged here. In upper case the sharp s becomes two letters.
\<close>

definition lower_cp :: "nat \<Rightarrow> nat" where
  "lower_cp c =
     (if 65 \<le> c \<and> c \<le> 90 then c + 32
      else if 192 \<le> c \<and> c \<le> 222 \<and> c \<noteq> 215 then c + 32
      else if 1024 \<le> c \<and> c \<le> 1039 then c + 80
      else if 1040 \<le> c \<and> c \<le> 1071 then c + 32
      else c)"

definition upper_cp :: "nat \<Rightarrow> ustr" where
  "upper_cp c =
     (if 97 \<le> c \<and> c \<le> 122 then [c - 32]
      else if c = 181 then [924]
      else if c = 223 then [83, 83]
      else if 224 \<le> c \<and> c \<le> 254 \<and> c \<noteq> 247 then [c - 32]
      else if c = 255 then [376]
      else if 1104 \<le> c \<and> c \<le> 1119 then [c - 80]
      else if 1072 \<le> c \<and> c \<le> 1103 then [c - 32]
      else [c])"

text \<open>The title case of a code point, which differs from its upper case for the sharp s.\<close>

definition title_cp :: "nat \<Rightarrow> ustr" where
  "title_cp c = (if c = 223 then [83, 115] else upper_cp c)"

definition lower :: "ustr \<Rightarrow> ustr" where
  "lower s = map lower_cp s"

definition upper :: "ustr \<Rightarrow> ustr" where
  "upper s = concat (map upper_cp s)"

text \<open>\<open>str.capitalize\<close>: the first character in title case, the others in lower case.\<close>

fun capitalize :: "ustr \<Rightarrow> ustr" where
  "capitalize [] = []"
| "capitalize (c # cs) = title_cp c @ lower cs"

text \<open>\<open>needle in hay\<close> on strings: \<open>needle\<close> occurs in \<open>hay\<close> as a contiguous run.\<close>

fun contains :: "'a list \<Rightarrow> 'a list \<Rightarrow> bool" where
  "contains needle [] = (needle = [])"
| "contains needle (c # cs) = (prefix needle (c # cs) \<or> contains needle cs)"

text \<open>
  \<open>s.replace(old, "")\<close>: every occurrence of \<open>old\<close> is removed, scanning from the left and
  resuming after each occurrence.
\<close>

function replace_all :: "'a list \<Rightarrow> 'a list \<Rightarrow> 'a list" where
  "replace_all old [] = []"
| "replace_all old (c # cs) =
     (if old \<noteq> [] \<and> prefix old (c # cs) then replace_all old (drop (length old) (c # cs))
      else c # replace_all old cs)"
  by pat_completeness auto
termination
  by (relation "measure (\<lambda>(old, s). length s)") (auto simp: Suc_le_eq)

text \<open>\<open>s.replace(a, b)\<close> for single characters \<open>a\<close> and \<open>b\<close>.\<close>

definition replace_char :: "nat \<Rightarrow> nat \<Rightarrow> ustr \<Rightarrow> ustr" where
  "replace_char a b s = map (\<lambda>c. if c = a then b else c) s"

text \<open>
  \<open>s.split()\<close>: the maximal runs of non-white-space characters. \<open>split_acc w s\<close> scans
  \<open>s\<close> with the current word \<open>w\<close> held in reverse.
\<close>

fun split_acc :: "ustr \<Rightarrow> ustr \<Rightarrow> ustr list" where
  "split_acc w [] = (if w = [] then [] else [rev w])"
| "split_acc w (c # cs) =
     (if is_space c then (if w = [] then split_acc [] cs else rev w # split_acc [] cs)
      else split_acc (c # w) cs)"

definition split_ws :: "ustr \<Rightarrow> ustr list" where
  "split_ws s = split_acc [] s"

text \<open>
  \<open>s.split(maxsplit=1)\<close>: the first word, and the remainder of the text after the white
  space that follows it (trailing white space kept) when that remainder is not empty.
\<close>

definition split_max1 :: "ustr \<Rightarrow> ustr list" where
  "split_max1 s =
     (let s1 = dropWhile is_space s in
      if s1 = [] then []
      else
        let w = takeWhile (\<lambda>c. \<not> is_space c) s1;
            r = dropWhile is_space (dropWhile (\<lambda>c. \<not> is_space c) s1)
        in if r = [] then [w] else [w, r])"

subsection \<open>Numbers\<close>

text \<open>
  A Python \<open>float\<close>: a finite value, given by the real number it stands for, an infinity or
  \<open>nan\<close>. Comparisons of floats are exact and are defined here. Whatever rounds (reading a
  float from text, converting an integer, multiplying, dividing) is not computed by the
  model: it is taken from the environment \<open>pyenv\<close> below, and the properties are proved
  for every environment.
\<close>

datatype pyfloat = Fin real | PInf | NInf | NaN

text \<open>\<open>x >= c\<close>, \<open>x > 0\<close> and \<open>x == 0\<close> for a float \<open>x\<close>: every comparison with \<open>nan\<close> is false.\<close>

fun float_ge :: "pyfloat \<Rightarrow> real \<Rightarrow> bool" where
  "float_ge (Fin r) c = (c \<le> r)"
| "float_ge PInf c = True"
| "float_ge NInf c = False"
| "float_ge NaN c = False"

fun float_pos :: "pyfloat \<Rightarrow> bool" where
  "float_pos (Fin r) = (0 < r)"
| "float_pos PInf = True"
| "float_pos NInf = False"
| "float_pos NaN = False"

definition float_zero :: "pyfloat \<Rightarrow> bool" where
  "float_zero x \<longleftrightarrow> x = Fin 0"

text \<open>\<open>round(x)\<close> on a finite float: to the nearest integer, a tie going to the even one.\<close>

definition round_half_even :: "real \<Rightarrow> int" where
  "round_half_even x =
     (let f = \<lfloor>x\<rfloor>; d = x - of_int f in
      if d < 1 / 2 then f
      else if 1 / 2 < d then f + 1
      else if even f then f else f + 1)"

subsection \<open>Values decoded from JSON, and the exceptions of the operations on them\<close>

datatype json =
    JNull
  | JBool bool
  | JInt int
  | JFloat pyfloat
  | JStr ustr
  | JArr "json list"
  | JObj "(ustr \<times> json) list"

datatype exn =
    ClientError
  | JSONDecodeError
  | KeyError
  | IndexError
  | TypeError
  | AttributeError
  | ValueError
  | OverflowError
  | OSError
  | ZeroDivisionError

text \<open>
  The environment of the program: the parts of the Python runtime and of the platform whose
  results the model does not compute.
  \<^item> \<open>float_of_str s\<close> is \<open>float(s)\<close> on a string, \<open>None\<close> when it raises \<open>ValueError\<close>;
  \<^item> \<open>float_of_int i\<close> is \<open>float(i)\<close> on an integer, \<open>None\<close> when it raises \<open>OverflowError\<close>;
  \<^item> \<open>float_mul a b\<close> is \<open>a * b\<close>, and \<open>float_div a b\<close> is \<open>a / b\<close> for a divisor other than zero;
  \<^item> \<open>timestamp_error x\<close> is the exception that \<open>datetime.fromtimestamp(x)\<close> raises on
    the number \<open>x\<close>, if it raises: the range of time stamps is the platform's.
\<close>

record pyenv =
  float_of_str :: "ustr \<Rightarrow> pyfloat option"
  float_of_int :: "int \<Rightarrow> pyfloat option"
  float_mul :: "pyfloat \<Rightarrow> pyfloat \<Rightarrow> pyfloat"
  float_div :: "pyfloat \<Rightarrow> pyfloat \<Rightarrow> pyfloat"
  timestamp_error :: "real \<Rightarrow> exn option"

text \<open>A computation that may raise: \<open>Inl\<close> is the exception.\<close>

definition bindE :: "exn + 'a \<Rightarrow> ('a \<Rightarrow> exn + 'b) \<Rightarrow> exn + 'b" where
  "bindE m f = (case m of Inl e \<Rightarrow> Inl e | Inr v \<Rightarrow> f v)"

text \<open>\<open>d[key]\<close> with a string key.\<close>

fun subscr :: "json \<Rightarrow> ustr \<Rightarrow> exn + json" where
  "subscr (JObj kvs) key = (case map_of kvs key of None \<Rightarrow> Inl KeyError | Some v \<Rightarrow> Inr v)"
| "subscr _ key = Inl TypeError"

text \<open>\<open>xs[0]\<close>. A dictionary decoded from JSON has string keys only, so \<open>0\<close> is never a key.\<close>

fun subscr0 :: "json \<Rightarrow> exn + json" where
  "subscr0 (JArr []) = Inl IndexError"
| "subscr0 (JArr (x # xs)) = Inr x"
| "subscr0 (JStr []) = Inl IndexError"
| "subscr0 (JStr (c # cs)) = Inr (JStr [c])"
| "subscr0 (JObj kvs) = Inl KeyError"
| "subscr0 _ = Inl TypeError"

text \<open>\<open>d.get(key, default)\<close>: only a dictionary has the method.\<close>

fun dict_get :: "json \<Rightarrow> ustr \<Rightarrow> json \<Rightarrow> exn + json" where
  "dict_get (JObj kvs) key dflt = Inr (case map_of kvs key of None \<Rightarrow> dflt | Some v \<Rightarrow> v)"
| "dict_get _ key dflt = Inl AttributeError"

text \<open>\<open>d[key] = v\<close> with a string key: the key keeps its place when it is there already.\<close>

fun setitem :: "json \<Rightarrow> ustr \<Rightarrow> json \<Rightarrow> exn + json" where
  "setitem (JObj kvs) key v = Inr (JObj (AList.update key v kvs))"
| "setitem _ key v = Inl TypeError"

text \<open>The items a \<open>for\<close> loop draws from a value.\<close>

fun py_iter :: "json \<Rightarrow> exn + json list" where
  "py_iter (JArr xs) = Inr xs"
| "py_iter (JStr s) = Inr (map (\<lambda>c. JStr [c]) s)"
| "py_iter (JObj kvs) = Inr (map (\<lambda>kv. JStr (fst kv)) kvs)"
| "py_iter _ = Inl TypeError"

text \<open>\<open>needle in v\<close> for a string \<open>needle\<close>.\<close>

fun py_in :: "ustr \<Rightarrow> json \<Rightarrow> exn + bool" where
  "py_in needle (JStr s) = Inr (contains needle s)"
| "py_in needle (JArr xs) = Inr (JStr needle \<in> set xs)"
| "py_in needle (JObj kvs) = Inr (needle \<in> fst ` set kvs)"
| "py_in needle _ = Inl TypeError"

text \<open>\<open>v.split(" ")[0]\<close>: the text before the first space.\<close>

fun split_space_first :: "json \<Rightarrow> exn + ustr" where
  "split_space_first (JStr s) = Inr (takeWhile (\<lambda>c. c \<noteq> 32) s)"
| "split_space_first _ = Inl AttributeError"

text \<open>\<open>float(v)\<close>.\<close>

fun py_float :: "pyenv \<Rightarrow> json \<Rightarrow> exn + pyfloat" where
  "py_float env (JStr s) =
     (case float_of_str env s of None \<Rightarrow> Inl ValueError | Some x \<Rightarrow> Inr x)"
| "py_float env (JInt i) =
     (case float_of_int env i of None \<Rightarrow> Inl OverflowError | Some x \<Rightarrow> Inr x)"
| "py_float env (JFloat x) = Inr x"
| "py_float env (JBool b) = Inr (Fin (if b then 1 else 0))"
| "py_float env _ = Inl TypeError"

text \<open>\<open>round(v)\<close>.\<close>

fun py_round :: "json \<Rightarrow> exn + int" where
  "py_round (JInt i) = Inr i"
| "py_round (JFloat (Fin r)) = Inr (round_half_even r)"
| "py_round (JFloat NaN) = Inl ValueError"
| "py_round (JFloat x) = Inl OverflowError"
| "py_round (JBool b) = Inr (if b then 1 else 0)"
| "py_round _ = Inl TypeError"

text \<open>\<open>v.capitalize()\<close>: a method of strings.\<close>

fun py_capitalize :: "json \<Rightarrow> exn + ustr" where
  "py_capitalize (JStr s) = Inr (capitalize s)"
| "py_capitalize _ = Inl AttributeError"

text \<open>\<open>a / b\<close> on floats: a divisor equal to zero raises.\<close>

definition py_div :: "pyenv \<Rightarrow> pyfloat \<Rightarrow> pyfloat \<Rightarrow> exn + pyfloat" where
  "py_div env a b = (if float_zero b then Inl ZeroDivisionError else Inr (float_div env a b))"

subsection \<open>The outside world: HTTP providers and the messaging transport\<close>

text \<open>
  The three endpoints the program queries. The weather and forecast requests carry the
  latitude and the longitude (the API key, the units and the language are fixed).
\<close>

datatype request =
    GetWeather real real
  | GetForecast real real
  | GetRates

text \<open>
  What one request meets: \<open>NetworkError\<close> when \<open>session.get\<close> raises (connection failure,
  timeout) or the response cannot be read at all; otherwise a response with its status and
  its body decoded as JSON, \<open>None\<close> when \<open>response.json()\<close> raises on it. Within one handler
  run a request is answered the same way each time it is issued.
\<close>

datatype http_outcome =
    NetworkError
  | Response nat "json option"

type_synonym net = "request \<Rightarrow> http_outcome"

text \<open>The button layouts of the View Builder, by name.\<close>

datatype keyboard =
    NoKeyboard
  | MainKeyboard
  | CitiesKeyboard "ustr list"
  | ForecastKeyboard ustr
  | CurrencyKeyboard

datatype emoji =
    Sun | Moon | SunCloud | Cloud | Rain | SunRain | Storm | Snow | Fog | Thermometer

text \<open>
  The text of a weather reply, by the values that \<open>format_weather\<close> interpolates: each
  field is shown as Python's \<open>str\<close> of the value, the time stamp as a clock time.
\<close>

record weather_text =
  wt_emoji :: emoji
  wt_city :: json
  wt_temp :: json
  wt_feels_like :: json
  wt_description :: ustr
  wt_humidity :: json
  wt_pressure :: json
  wt_wind_speed :: json
  wt_updated :: real

text \<open>One entry of the dictionary that \<open>get_forecast\<close> builds per calendar date.\<close>

record forecast_day =
  fd_date :: ustr
  fd_temp :: json
  fd_feels_like :: json
  fd_description :: json
  fd_icon :: json
  fd_humidity :: json
  fd_wind :: json

text \<open>
  One day's block of a forecast reply. The heading is computed from the date (the weekday
  name, or the raw month and day when the date does not parse); the block keeps the date.
\<close>

record forecast_line =
  fl_date :: ustr
  fl_emoji :: emoji
  fl_temp :: int
  fl_feels :: int
  fl_desc :: ustr
  fl_humidity :: json
  fl_wind :: json

text \<open>The message templates of the handlers, each with the values it interpolates.\<close>

datatype message =
    Greeting "ustr list"
  | HelpText "ustr list"
  | LoadingWeatherAll nat
  | LoadingForecastAll nat
  | LoadingWeatherCity ustr
  | LoadingForecastCity ustr
  | WeatherReport weather_text
  | ForecastReport ustr "forecast_line list"
  | WeatherApology ustr
  | ForecastApology ustr
  | CityUsage
  | CityNotFound ustr
  | CitiesList "ustr list"
  | RatesMenu pyfloat pyfloat
  | RatesRefreshed pyfloat pyfloat
  | UsageBadFormat
  | UsageUnsupported
  | ConversionEurUah pyfloat pyfloat pyfloat
  | ConversionUahEur pyfloat pyfloat pyfloat
  | PromptEurUah
  | PromptUahEur

text \<open>
  What a handler does to the outside: an HTTP request, a new message
  (\<open>message.answer\<close>), an edit of the existing message in place (\<open>edit_text\<close>), the
  acknowledgement of a button press (\<open>call.answer\<close>). The transport calls themselves are
  taken to succeed.
\<close>

datatype event =
    Http request
  | Answer message keyboard
  | EditText message keyboard
  | Ack

text \<open>
  An effectful computation: the events it caused, in order, and its result or the exception
  that ended it.
\<close>

type_synonym 'a io = "event list \<times> (exn + 'a)"

definition io_return :: "'a \<Rightarrow> 'a io" where
  "io_return v = ([], Inr v)"

definition emit :: "event \<Rightarrow> unit io" where
  "emit ev = ([ev], Inr ())"

definition lift :: "exn + 'a \<Rightarrow> 'a io" where
  "lift r = ([], r)"

definition io_bind :: "'a io \<Rightarrow> ('a \<Rightarrow> 'b io) \<Rightarrow> 'b io" where
  "io_bind m f =
     (case snd m of
        Inl e \<Rightarrow> (fst m, Inl e)
      | Inr v \<Rightarrow> (fst m @ fst (f v), snd (f v)))"

definition io_seq :: "unit io \<Rightarrow> 'b io \<Rightarrow> 'b io" where
  "io_seq m k = io_bind m (\<lambda>_. k)"

text \<open>A \<open>for\<close> loop over a list: an exception in the body ends the loop.\<close>

fun for_each :: "('a \<Rightarrow> unit io) \<Rightarrow> 'a list \<Rightarrow> unit io" where
  "for_each body [] = io_return ()"
| "for_each body (x # xs) = io_seq (body x) (for_each body xs)"

subsection \<open>Configuration\<close>

type_synonym city = "ustr \<times> real \<times> real"

definition CITIES :: "city list" where
  "CITIES =
    [([1050, 1105, 1083, 1100, 1085], 50.9375, 6.9603),
     ([1051, 1080, 1085, 1094, 45, 1072, 1084, 45, 1056, 1072, 1081, 1085], 50.5667, 7.3167),
     ([1053, 1102, 1084, 1073, 1088, 1077, 1093, 1090], 50.9167, 7.6333),
     ([1043, 1091, 1084, 1084, 1077, 1088, 1089, 1073, 1072, 1093], 51.0236, 7.5628),
     ([1042, 1080, 1083, 1100], 50.9167, 7.5333),
     ([1044, 1080, 1088, 1077, 1085, 1093, 1072, 1091, 1079, 1077, 1085], 50.8833, 7.6167),
     ([1042, 1072, 1083, 1100, 1076, 1073, 1088, 1077, 1083, 1100], 50.9333, 7.7167)]"

type_synonym rates = "(ustr \<times> pyfloat) list"

definition EXCHANGE_RATES :: rates where
  "EXCHANGE_RATES = [(u ''EUR'', Fin 1.0), (u ''UAH'', Fin 44.5)]"

text \<open>\<open>rates.get(key, default)\<close>.\<close>

definition rates_get :: "rates \<Rightarrow> ustr \<Rightarrow> pyfloat \<Rightarrow> pyfloat" where
  "rates_get rates key dflt = (case map_of rates key of None \<Rightarrow> dflt | Some v \<Rightarrow> v)"

subsection \<open>Rate provider client\<close>

text \<open>The loop of \<open>get_exchange_rates\<close> over the decoded list.\<close>

fun rates_loop :: "pyenv \<Rightarrow> json list \<Rightarrow> rates \<Rightarrow> exn + rates" where
  "rates_loop env [] rates = Inr rates"
| "rates_loop env (item # data) rates =
     bindE (dict_get item (u ''ccy'') JNull) (\<lambda>ccy.
       if ccy = JStr (u ''EUR'') then
         bindE (dict_get item (u ''sale'') (JStr (u ''44.5''))) (\<lambda>sale.
         bindE (py_float env sale) (\<lambda>r.
           rates_loop env data (AList.update (u ''UAH'') (Fin 1.0) (AList.update (u ''EUR'') r rates))))
       else rates_loop env data rates)"

text \<open>The body of the \<open>try\<close> block, for a response that arrived.\<close>

definition rates_of_response :: "pyenv \<Rightarrow> nat \<Rightarrow> json option \<Rightarrow> exn + rates" where
  "rates_of_response env status body =
     (if status = 200 then
        (case body of
           None \<Rightarrow> Inl JSONDecodeError
         | Some data \<Rightarrow>
             bindE (py_iter data) (\<lambda>items.
               rates_loop env items [(u ''EUR'', Fin 1.0), (u ''UAH'', Fin 44.5)]))
      else Inr EXCHANGE_RATES)"

text \<open>\<open>except Exception\<close>: every exception of the request or of the body is caught.\<close>

definition get_exchange_rates :: "pyenv \<Rightarrow> net \<Rightarrow> rates io" where
  "get_exchange_rates env net =
     io_seq (emit (Http GetRates))
       (io_return
          (case net GetRates of
             NetworkError \<Rightarrow> EXCHANGE_RATES
           | Response status body \<Rightarrow>
               (case rates_of_response env status body of
                  Inl e \<Rightarrow> EXCHANGE_RATES
                | Inr rates \<Rightarrow> rates)))"

definition convert_currency ::
  "pyenv \<Rightarrow> pyfloat \<Rightarrow> ustr \<Rightarrow> ustr \<Rightarrow> rates \<Rightarrow> exn + pyfloat \<times> pyfloat" where
  "convert_currency env amount from_currency to_currency rates =
     (if from_currency = to_currency then Inr (amount, rates_get rates from_currency (Fin 1.0))
      else if from_currency = u ''EUR'' then
        Inr (float_mul env amount (rates_get rates (u ''EUR'') (Fin 1.0)),
             rates_get rates (u ''EUR'') (Fin 1.0))
      else
        bindE (py_div env amount (rates_get rates (u ''EUR'') (Fin 1.0))) (\<lambda>result.
        bindE (py_div env (Fin 1.0) (rates_get rates (u ''EUR'') (Fin 1.0))) (\<lambda>rate.
          Inr (result, rate))))"

subsection \<open>Weather provider client\<close>

text \<open>
  \<open>get_weather\<close> has no \<open>try\<close>: an exception of the request or of the decoding leaves
  the function. On status 200 the name is overwritten; any other status gives \<open>None\<close>.
\<close>

definition get_weather :: "net \<Rightarrow> ustr \<Rightarrow> real \<Rightarrow> real \<Rightarrow> json option io" where
  "get_weather net city_name lat lon =
     io_seq (emit (Http (GetWeather lat lon)))
       (lift
          (case net (GetWeather lat lon) of
             NetworkError \<Rightarrow> Inl ClientError
           | Response status body \<Rightarrow>
               if status = 200 then
                 (case body of
                    None \<Rightarrow> Inl JSONDecodeError
                  | Some data \<Rightarrow>
                      bindE (setitem data (u ''name'') (JStr city_name)) (\<lambda>data'.
                        Inr (Some data')))
               else Inr None))"

text \<open>The entry built from one midday sample, in the order the dictionary display evaluates.\<close>

definition forecast_entry :: "ustr \<Rightarrow> json \<Rightarrow> exn + forecast_day" where
  "forecast_entry date item =
     bindE (bindE (subscr item (u ''main'')) (\<lambda>m. subscr m (u ''temp''))) (\<lambda>temp.
     bindE (bindE (subscr item (u ''main'')) (\<lambda>m. subscr m (u ''feels_like''))) (\<lambda>feels_like.
     bindE (bindE (bindE (subscr item (u ''weather'')) subscr0)
              (\<lambda>w. subscr w (u ''description''))) (\<lambda>description.
     bindE (bindE (bindE (subscr item (u ''weather'')) subscr0)
              (\<lambda>w. subscr w (u ''icon''))) (\<lambda>icon.
     bindE (bindE (subscr item (u ''main'')) (\<lambda>m. subscr m (u ''humidity''))) (\<lambda>humidity.
     bindE (bindE (subscr item (u ''wind'')) (\<lambda>w. subscr w (u ''speed''))) (\<lambda>wind.
       Inr \<lparr>fd_date = date, fd_temp = temp, fd_feels_like = feels_like,
            fd_description = description, fd_icon = icon, fd_humidity = humidity,
            fd_wind = wind\<rparr>))))))"

text \<open>
  The loop of \<open>get_forecast\<close>: \<open>daily_forecast\<close> is a dictionary in insertion order, and
  an assignment to a date that is there already replaces the entry where it stands.
\<close>

fun forecast_loop ::
  "json list \<Rightarrow> (ustr \<times> forecast_day) list \<Rightarrow> exn + (ustr \<times> forecast_day) list" where
  "forecast_loop [] daily_forecast = Inr daily_forecast"
| "forecast_loop (item # forecast_list) daily_forecast =
     bindE (dict_get item (u ''dt_txt'') (JStr [])) (\<lambda>dt_txt.
     bindE (py_in (u ''12:00:00'') dt_txt) (\<lambda>midday.
       if midday then
         bindE (split_space_first dt_txt) (\<lambda>date.
         bindE (forecast_entry date item) (\<lambda>entry.
           forecast_loop forecast_list (AList.update date entry daily_forecast)))
       else forecast_loop forecast_list daily_forecast))"

definition forecast_of_body :: "json \<Rightarrow> exn + forecast_day list" where
  "forecast_of_body data =
     bindE (dict_get data (u ''list'') (JArr [])) (\<lambda>forecast_list.
     bindE (py_iter forecast_list) (\<lambda>items.
     bindE (forecast_loop items []) (\<lambda>daily_forecast.
       Inr (take 3 (map snd daily_forecast)))))"

definition get_forecast :: "net \<Rightarrow> ustr \<Rightarrow> real \<Rightarrow> real \<Rightarrow> forecast_day list option io" where
  "get_forecast net city_name lat lon =
     io_seq (emit (Http (GetForecast lat lon)))
       (lift
          (case net (GetForecast lat lon) of
             NetworkError \<Rightarrow> Inl ClientError
           | Response status body \<Rightarrow>
               if status = 200 then
                 (case body of
                    None \<Rightarrow> Inl JSONDecodeError
                  | Some data \<Rightarrow> bindE (forecast_of_body data) (\<lambda>days. Inr (Some days)))
               else Inr None))"

subsection \<open>Formatter\<close>

definition emoji_of_icon :: "ustr \<Rightarrow> emoji" where
  "emoji_of_icon icon =
     (if icon = u ''01d'' then Sun
      else if icon = u ''01n'' then Moon
      else if icon = u ''02d'' \<or> icon = u ''02n'' then SunCloud
      else if icon = u ''03d'' \<or> icon = u ''03n'' then Cloud
      else if icon = u ''04d'' \<or> icon = u ''04n'' then Cloud
      else if icon = u ''09d'' \<or> icon = u ''09n'' then Rain
      else if icon = u ''10d'' \<or> icon = u ''10n'' then SunRain
      else if icon = u ''11d'' \<or> icon = u ''11n'' then Storm
      else if icon = u ''13d'' \<or> icon = u ''13n'' then Snow
      else if icon = u ''50d'' \<or> icon = u ''50n'' then Fog
      else Thermometer)"

text \<open>
  \<open>weather_emojis.get(icon, default)\<close>: a list or a dictionary is not hashable; any other
  value that is not a key gives the default.
\<close>

fun emoji_get :: "json \<Rightarrow> exn + emoji" where
  "emoji_get (JStr icon) = Inr (emoji_of_icon icon)"
| "emoji_get (JArr xs) = Inl TypeError"
| "emoji_get (JObj kvs) = Inl TypeError"
| "emoji_get _ = Inr Thermometer"

text \<open>
  \<open>datetime.fromtimestamp(v)\<close>: the argument is a number, and one that the platform can
  turn into a date. The result is kept as the time stamp.
\<close>

definition checked_timestamp :: "pyenv \<Rightarrow> real \<Rightarrow> exn + real" where
  "checked_timestamp env x = (case timestamp_error env x of None \<Rightarrow> Inr x | Some e \<Rightarrow> Inl e)"

fun py_timestamp :: "pyenv \<Rightarrow> json \<Rightarrow> exn + real" where
  "py_timestamp env (JInt i) = checked_timestamp env (of_int i)"
| "py_timestamp env (JFloat (Fin r)) = checked_timestamp env r"
| "py_timestamp env (JFloat NaN) = Inl ValueError"
| "py_timestamp env (JFloat x) = Inl OverflowError"
| "py_timestamp env (JBool b) = checked_timestamp env (if b then 1 else 0)"
| "py_timestamp env _ = Inl TypeError"

definition format_weather :: "pyenv \<Rightarrow> json \<Rightarrow> exn + weather_text" where
  "format_weather env data =
     bindE (subscr data (u ''name'')) (\<lambda>city.
     bindE (bindE (subscr data (u ''main'')) (\<lambda>m. subscr m (u ''temp''))) (\<lambda>temp.
     bindE (bindE (subscr data (u ''main'')) (\<lambda>m. subscr m (u ''feels_like''))) (\<lambda>feels_like.
     bindE (bindE (subscr data (u ''main'')) (\<lambda>m. subscr m (u ''humidity''))) (\<lambda>humidity.
     bindE (bindE (subscr data (u ''main'')) (\<lambda>m. subscr m (u ''pressure''))) (\<lambda>pressure.
     bindE (bindE (subscr data (u ''wind'')) (\<lambda>w. subscr w (u ''speed''))) (\<lambda>wind_speed.
     bindE (bindE (bindE (subscr data (u ''weather'')) subscr0)
              (\<lambda>w. subscr w (u ''description''))) (\<lambda>description.
     bindE (bindE (bindE (subscr data (u ''weather'')) subscr0)
              (\<lambda>w. subscr w (u ''icon''))) (\<lambda>icon.
     bindE (emoji_get icon) (\<lambda>emoji.
     bindE (py_capitalize description) (\<lambda>desc.
     bindE (bindE (subscr data (u ''dt'')) (py_timestamp env)) (\<lambda>dt.
       Inr \<lparr>wt_emoji = emoji, wt_city = city, wt_temp = temp, wt_feels_like = feels_like,
            wt_description = desc, wt_humidity = humidity, wt_pressure = pressure,
            wt_wind_speed = wind_speed, wt_updated = dt\<rparr>)))))))))))"

text \<open>One pass of the loop of \<open>format_forecast\<close>.\<close>

definition format_forecast_day :: "forecast_day \<Rightarrow> exn + forecast_line" where
  "format_forecast_day day =
     bindE (emoji_get (fd_icon day)) (\<lambda>emoji.
     bindE (py_round (fd_temp day)) (\<lambda>temp.
     bindE (py_round (fd_feels_like day)) (\<lambda>feels.
     bindE (py_capitalize (fd_description day)) (\<lambda>desc.
       Inr \<lparr>fl_date = fd_date day, fl_emoji = emoji, fl_temp = temp, fl_feels = feels,
            fl_desc = desc, fl_humidity = fd_humidity day, fl_wind = fd_wind day\<rparr>))))"

fun format_forecast_lines :: "forecast_day list \<Rightarrow> exn + forecast_line list" where
  "format_forecast_lines [] = Inr []"
| "format_forecast_lines (day # forecast_list) =
     bindE (format_forecast_day day) (\<lambda>line.
     bindE (format_forecast_lines forecast_list) (\<lambda>lines.
       Inr (line # lines)))"

definition format_forecast :: "ustr \<Rightarrow> forecast_day list \<Rightarrow> exn + message" where
  "format_forecast city_name forecast_list =
     bindE (format_forecast_lines forecast_list) (\<lambda>lines.
       Inr (ForecastReport city_name lines))"

subsection \<open>Command handlers\<close>

text \<open>The truth value of a decoded value, as \<open>if weather_data:\<close> tests it.\<close>

fun truthy :: "json \<Rightarrow> bool" where
  "truthy JNull = False"
| "truthy (JBool b) = b"
| "truthy (JInt i) = (i \<noteq> 0)"
| "truthy (JFloat x) = (\<not> float_zero x)"
| "truthy (JStr s) = (s \<noteq> [])"
| "truthy (JArr xs) = (xs \<noteq> [])"
| "truthy (JObj kvs) = (kvs \<noteq> [])"

definition cmd_start :: "city list \<Rightarrow> unit io" where
  "cmd_start cities = emit (Answer (Greeting (map fst cities)) MainKeyboard)"

definition cmd_help :: "city list \<Rightarrow> unit io" where
  "cmd_help cities = emit (Answer (HelpText (map fst cities)) MainKeyboard)"

text \<open>
  The steps that the weather handlers repeat for one location: fetch, then the formatted
  reply (with the keyboard \<open>kb\<close>) or the apology naming \<open>shown_name\<close>.
\<close>

definition weather_reply :: "pyenv \<Rightarrow> net \<Rightarrow> keyboard \<Rightarrow> ustr \<Rightarrow> city \<Rightarrow> unit io" where
  "weather_reply env net kb shown_name c =
     (case c of (city_name, lat, lon) \<Rightarrow>
        io_bind (get_weather net city_name lat lon) (\<lambda>weather_data.
          case weather_data of
            None \<Rightarrow> emit (Answer (WeatherApology shown_name) NoKeyboard)
          | Some data \<Rightarrow>
              if truthy data then
                io_bind (lift (format_weather env data)) (\<lambda>text.
                  emit (Answer (WeatherReport text) kb))
              else emit (Answer (WeatherApology shown_name) NoKeyboard)))"

text \<open>The same for the forecast: an empty list of days is false, as \<open>None\<close> is.\<close>

definition forecast_reply :: "net \<Rightarrow> ustr \<Rightarrow> city \<Rightarrow> unit io" where
  "forecast_reply net shown_name c =
     (case c of (city_name, lat, lon) \<Rightarrow>
        io_bind (get_forecast net city_name lat lon) (\<lambda>forecast_data.
          case forecast_data of
            None \<Rightarrow> emit (Answer (ForecastApology shown_name) NoKeyboard)
          | Some days \<Rightarrow>
              if days \<noteq> [] then
                io_bind (lift (format_forecast city_name days)) (\<lambda>text.
                  emit (Answer text NoKeyboard))
              else emit (Answer (ForecastApology shown_name) NoKeyboard)))"

definition cmd_weather :: "pyenv \<Rightarrow> city list \<Rightarrow> net \<Rightarrow> unit io" where
  "cmd_weather env cities net =
     io_seq (emit (Answer (LoadingWeatherAll (length cities)) NoKeyboard))
       (for_each (\<lambda>c. weather_reply env net NoKeyboard (fst c) c) cities)"

text \<open>The search loop of \<open>cmd_city\<close>, with its \<open>break\<close> at the first match.\<close>

fun find_city :: "city list \<Rightarrow> ustr \<Rightarrow> city option" where
  "find_city [] city_query = None"
| "find_city ((city_name, lat, lon) # rest) city_query =
     (if contains city_query (lower city_name) \<or> contains (lower city_name) city_query
      then Some (city_name, lat, lon)
      else find_city rest city_query)"

definition cmd_city :: "pyenv \<Rightarrow> city list \<Rightarrow> net \<Rightarrow> ustr \<Rightarrow> unit io" where
  "cmd_city env cities net text =
     (let cmd = split_max1 text in
      if length cmd < 2 then emit (Answer CityUsage NoKeyboard)
      else
        let city_query = lower (cmd ! 1) in
        case find_city cities city_query of
          None \<Rightarrow> emit (Answer (CityNotFound (cmd ! 1)) NoKeyboard)
        | Some found_city \<Rightarrow> weather_reply env net NoKeyboard (fst found_city) found_city)"

definition cmd_near :: "city list \<Rightarrow> unit io" where
  "cmd_near cities =
     emit (Answer (CitiesList (map fst cities)) (CitiesKeyboard (map fst cities)))"

definition cmd_forecast :: "city list \<Rightarrow> net \<Rightarrow> unit io" where
  "cmd_forecast cities net =
     io_seq (emit (Answer (LoadingForecastAll (length cities)) NoKeyboard))
       (for_each (\<lambda>c. forecast_reply net (fst c) c) cities)"

text \<open>
  The rate quote of the currency menu: \<open>1/eur_rate\<close> is evaluated while the text is
  built, before anything is sent.
\<close>

definition rates_quote :: "pyenv \<Rightarrow> net \<Rightarrow> (pyfloat \<times> pyfloat) io" where
  "rates_quote env net =
     io_bind (get_exchange_rates env net) (\<lambda>rates.
       let eur_rate = rates_get rates (u ''EUR'') (Fin 1.0) in
       io_bind (lift (py_div env (Fin 1) eur_rate)) (\<lambda>inverse.
         io_return (eur_rate, inverse)))"

definition cmd_currency :: "pyenv \<Rightarrow> net \<Rightarrow> ustr \<Rightarrow> unit io" where
  "cmd_currency env net text =
     (let parts = split_ws text in
      if length parts < 2 then
        io_bind (rates_quote env net) (\<lambda>(eur_rate, inverse).
          emit (Answer (RatesMenu eur_rate inverse) CurrencyKeyboard))
      else
        let amount_str = replace_char 44 46 (parts ! 1);
            currency = (if length parts > 2 then Some (upper (parts ! 2)) else None)
        in
        case float_of_str env amount_str of
          None \<Rightarrow> emit (Answer UsageBadFormat NoKeyboard)
        | Some amount \<Rightarrow>
            let currency =
                  (case currency of
                     None \<Rightarrow> if float_ge amount 100 then u ''UAH'' else u ''EUR''
                   | Some c \<Rightarrow> c)
            in
            if currency \<noteq> u ''EUR'' \<and> currency \<noteq> u ''UAH'' then
              emit (Answer UsageUnsupported NoKeyboard)
            else
              io_bind (get_exchange_rates env net) (\<lambda>rates.
                if currency = u ''EUR'' then
                  io_bind (lift (convert_currency env amount (u ''EUR'') (u ''UAH'') rates))
                    (\<lambda>(converted, rate).
                       emit (Answer (ConversionEurUah amount converted rate) NoKeyboard))
                else
                  io_bind (lift (convert_currency env amount (u ''UAH'') (u ''EUR'') rates))
                    (\<lambda>(converted, rate).
                       emit (Answer (ConversionUahEur amount converted rate) NoKeyboard))))"

subsection \<open>Button handler\<close>

text \<open>The search loops of the per-city buttons: exact name, \<open>break\<close> at the first match.\<close>

fun weather_button_loop :: "pyenv \<Rightarrow> net \<Rightarrow> ustr \<Rightarrow> city list \<Rightarrow> unit io" where
  "weather_button_loop env net city_name [] = io_return ()"
| "weather_button_loop env net city_name ((c_name, lat, lon) # rest) =
     (if c_name = city_name then
        weather_reply env net (ForecastKeyboard city_name) city_name (c_name, lat, lon)
      else weather_button_loop env net city_name rest)"

fun forecast_button_loop :: "net \<Rightarrow> ustr \<Rightarrow> city list \<Rightarrow> unit io" where
  "forecast_button_loop net city_name [] = io_return ()"
| "forecast_button_loop net city_name ((c_name, lat, lon) # rest) =
     (if c_name = city_name then forecast_reply net city_name (c_name, lat, lon)
      else forecast_button_loop net city_name rest)"

definition process_callback :: "pyenv \<Rightarrow> city list \<Rightarrow> net \<Rightarrow> ustr \<Rightarrow> unit io" where
  "process_callback env cities net action =
     (if action = u ''weather_all'' then
        io_seq (emit (EditText (LoadingWeatherAll (length cities)) MainKeyboard))
       (io_seq (for_each (\<lambda>c. weather_reply env net (ForecastKeyboard (fst c)) (fst c) c) cities)
          (emit Ack))
      else if action = u ''forecast_all'' then
        io_seq (emit (EditText (LoadingForecastAll (length cities)) MainKeyboard))
       (io_seq (for_each (\<lambda>c. forecast_reply net (fst c) c) cities)
          (emit Ack))
      else if action = u ''list_cities'' then
        io_seq (emit (EditText (CitiesList (map fst cities)) (CitiesKeyboard (map fst cities))))
          (emit Ack)
      else if prefix (u ''weather_'') action then
        (let city_name = replace_all (u ''weather_'') action in
         io_seq (emit (Answer (LoadingWeatherCity city_name) NoKeyboard))
        (io_seq (weather_button_loop env net city_name cities)
           (emit Ack)))
      else if prefix (u ''forecast_'') action then
        (let city_name = replace_all (u ''forecast_'') action in
         io_seq (emit (Answer (LoadingForecastCity city_name) NoKeyboard))
        (io_seq (forecast_button_loop net city_name cities)
           (emit Ack)))
      else if action = u ''currency'' then
        io_bind (rates_quote env net) (\<lambda>(eur_rate, inverse).
          io_seq (emit (Answer (RatesMenu eur_rate inverse) CurrencyKeyboard))
            (emit Ack))
      else if action = u ''currency_rates'' then
        io_bind (rates_quote env net) (\<lambda>(eur_rate, inverse).
          io_seq (emit (EditText (RatesRefreshed eur_rate inverse) CurrencyKeyboard))
            (emit Ack))
      else if action = u ''conv_eur_uah'' then
        io_seq (emit (Answer PromptEurUah NoKeyboard)) (emit Ack)
      else if action = u ''conv_uah_eur'' then
        io_seq (emit (Answer PromptUahEur NoKeyboard)) (emit Ack)
      else io_return ())"

subsection \<open>Observations on a handler run\<close>

text \<open>The new messages, the in-place edits and the HTTP requests of a trace, in order.\<close>

fun answers :: "event list \<Rightarrow> message list" where
  "answers [] = []"
| "answers (Answer m kb # evs) = m # answers evs"
| "answers (ev # evs) = answers evs"

fun edits :: "event list \<Rightarrow> message list" where
  "edits [] = []"
| "edits (EditText m kb # evs) = m # edits evs"
| "edits (ev # evs) = edits evs"


text \<open>Every outbound message of a trace, new or edited.\<close>

definition outbound :: "event list \<Rightarrow> nat" where
  "outbound evs = length (answers evs) + length (edits evs)"

subsection \<open>An example environment and concrete provider behaviours\<close>

text \<open>
  One environment, for evaluating the handlers on examples: an idealised one, without
  rounding. It agrees with Python wherever the exact result is a float, as in every example
  below.

  Its \<open>float\<close> reads an ASCII text exactly: ASCII white space stripped, an optional sign,
  then \<open>inf\<close>, \<open>infinity\<close> or \<open>nan\<close> in any case, or digits with an optional fractional
  part and an optional exponent, where single underscores may stand between digits. (Python
  also reads the decimal digits and the white space of other scripts.)
\<close>

definition ascii_space :: "nat \<Rightarrow> bool" where
  "ascii_space c \<longleftrightarrow> (9 \<le> c \<and> c \<le> 13) \<or> c = 32"

definition strip :: "ustr \<Rightarrow> ustr" where
  "strip s = rev (dropWhile ascii_space (rev (dropWhile ascii_space s)))"

definition is_digit :: "nat \<Rightarrow> bool" where
  "is_digit c \<longleftrightarrow> 48 \<le> c \<and> c \<le> 57"

fun digits_value :: "nat \<Rightarrow> ustr \<Rightarrow> nat" where
  "digits_value acc [] = acc"
| "digits_value acc (c # cs) = digits_value (10 * acc + (c - 48)) cs"

text \<open>An underscore is dropped when it stands between two digits, and is an error elsewhere.\<close>

fun drop_underscores :: "bool \<Rightarrow> ustr \<Rightarrow> ustr option" where
  "drop_underscores after_digit [] = Some []"
| "drop_underscores after_digit (c # cs) =
     (if c = 95 then
        (case cs of
           [] \<Rightarrow> None
         | d # ds \<Rightarrow> if after_digit \<and> is_digit d then drop_underscores False cs else None)
      else map_option ((#) c) (drop_underscores (is_digit c) cs))"

text \<open>The exponent after \<open>e\<close>: an optional sign and at least one digit.\<close>

definition exponent_value :: "ustr \<Rightarrow> int option" where
  "exponent_value s =
     (case s of
        [] \<Rightarrow> None
      | c # cs \<Rightarrow>
          if c = 45 \<or> c = 43 then
            (if cs \<noteq> [] \<and> list_all is_digit cs
             then Some (if c = 45 then - int (digits_value 0 cs) else int (digits_value 0 cs))
             else None)
          else if list_all is_digit s then Some (int (digits_value 0 s))
          else None)"

definition scale10 :: "real \<Rightarrow> int \<Rightarrow> real" where
  "scale10 m e = (if 0 \<le> e then m * 10 ^ nat e else m / 10 ^ nat (- e))"

definition unsigned_decimal :: "ustr \<Rightarrow> real option" where
  "unsigned_decimal s =
     (let ip = takeWhile is_digit s;
          r1 = dropWhile is_digit s;
          point = (r1 \<noteq> [] \<and> hd r1 = 46);
          fp = (if point then takeWhile is_digit (tl r1) else []);
          r2 = (if point then dropWhile is_digit (tl r1) else r1);
          m = real (digits_value 0 ip) + real (digits_value 0 fp) / 10 ^ length fp
      in if ip = [] \<and> fp = [] then None
         else
           case r2 of
             [] \<Rightarrow> Some m
           | c # cs \<Rightarrow>
               if c = 101 \<or> c = 69 then map_option (scale10 m) (exponent_value cs) else None)"

definition decimal_float :: "ustr \<Rightarrow> pyfloat option" where
  "decimal_float s0 =
     (let s = strip s0;
          signed = (s \<noteq> [] \<and> (hd s = 45 \<or> hd s = 43));
          negative = (s \<noteq> [] \<and> hd s = 45);
          body = (if signed then tl s else s);
          word = lower body
      in if word = u ''inf'' \<or> word = u ''infinity'' then Some (if negative then NInf else PInf)
         else if word = u ''nan'' then Some NaN
         else
           case drop_underscores False body of
             None \<Rightarrow> None
           | Some digits \<Rightarrow>
               map_option (\<lambda>r. Fin (if negative then - r else r)) (unsigned_decimal digits))"

text \<open>
  Its products and quotients: exact on finite values, and by the rules of IEEE 754 on
  infinities and \<open>nan\<close> (the quotient is asked for a divisor other than zero only).
\<close>

fun float_negative :: "pyfloat \<Rightarrow> bool" where
  "float_negative (Fin r) = (r < 0)"
| "float_negative NInf = True"
| "float_negative x = False"

fun exact_mul :: "pyfloat \<Rightarrow> pyfloat \<Rightarrow> pyfloat" where
  "exact_mul NaN b = NaN"
| "exact_mul a NaN = NaN"
| "exact_mul (Fin a) (Fin b) = Fin (a * b)"
| "exact_mul a b =
     (if a = Fin 0 \<or> b = Fin 0 then NaN
      else if float_negative a = float_negative b then PInf else NInf)"

fun exact_div :: "pyfloat \<Rightarrow> pyfloat \<Rightarrow> pyfloat" where
  "exact_div NaN b = NaN"
| "exact_div a NaN = NaN"
| "exact_div (Fin a) (Fin b) = Fin (a / b)"
| "exact_div (Fin a) b = Fin 0"
| "exact_div a (Fin b) = (if float_negative a = (b < 0) then PInf else NInf)"
| "exact_div a b = NaN"

text \<open>
  Its integers convert exactly, up to the largest float. Its platform accepts the time stamps
  from 1970 to the end of the year 9999.
\<close>

definition example_env :: pyenv where
  "example_env =
     \<lparr>float_of_str = decimal_float,
      float_of_int = (\<lambda>i. if \<bar>i\<bar> < 2 ^ 1024 then Some (Fin (of_int i)) else None),
      float_mul = exact_mul,
      float_div = exact_div,
      timestamp_error =
        (\<lambda>x. if x < 0 then Some OSError
             else if x < 253402300800 then None
             else Some ValueError)\<rparr>"

text \<open>Every request fails in the network; every request is answered with one status.\<close>

definition net_down :: net where
  "net_down r = NetworkError"

definition net_status :: "nat \<Rightarrow> net" where
  "net_status status r = Response status None"

text \<open>A current-weather body as the provider sends it.\<close>

definition sample_weather :: json where
  "sample_weather =
     JObj [(u ''weather'', JArr [JObj [(u ''description'', JStr (u ''clear sky'')),
                                      (u ''icon'', JStr (u ''01d''))]]),
           (u ''main'', JObj [(u ''temp'', JFloat (Fin 12.34)), (u ''feels_like'', JFloat (Fin 10.5)),
                              (u ''pressure'', JInt 1012), (u ''humidity'', JInt 71)]),
           (u ''wind'', JObj [(u ''speed'', JFloat (Fin 3.6))]),
           (u ''dt'', JInt 1700000000),
           (u ''name'', JStr (u ''Cologne''))]"

text \<open>A forecast sample with the given time text and temperature.\<close>

definition sample_item :: "string \<Rightarrow> json \<Rightarrow> json" where
  "sample_item dt_txt temp =
     JObj [(u ''dt_txt'', JStr (u dt_txt)),
           (u ''main'', JObj [(u ''temp'', temp), (u ''feels_like'', JFloat (Fin 2.5)),
                              (u ''humidity'', JInt 80)]),
           (u ''weather'', JArr [JObj [(u ''description'', JStr (u ''light rain'')),
                                       (u ''icon'', JStr (u ''10d''))]]),
           (u ''wind'', JObj [(u ''speed'', JFloat (Fin 4.1))])]"

text \<open>A forecast body in which one calendar date has two midday samples.\<close>

definition duplicate_midday_body :: json where
  "duplicate_midday_body =
     JObj [(u ''list'',
            JArr [sample_item ''2024-01-01 09:00:00'' (JInt 0),
                  sample_item ''2024-01-01 12:00:00'' (JInt 1),
                  sample_item ''2024-01-01 12:00:00'' (JInt 2),
                  sample_item ''2024-01-02 12:00:00'' (JFloat (Fin 3.5))])]"

text \<open>The first configured location answers 200 with the sample, every other request 404.\<close>

definition net_first_city :: net where
  "net_first_city r =
     (if r = GetWeather 50.9375 6.9603 then Response 200 (Some sample_weather)
      else if r = GetForecast 50.9375 6.9603 then Response 200 (Some duplicate_midday_body)
      else Response 404 None)"

text \<open>The rate provider answers 200 with the given sale quote for EUR.\<close>

definition net_quote :: "string \<Rightarrow> net" where
  "net_quote sale r =
     Response 200
       (Some (JArr [JObj [(u ''ccy'', JStr (u ''USD'')), (u ''sale'', JStr (u ''41.2''))],
                    JObj [(u ''ccy'', JStr (u ''EUR'')), (u ''sale'', JStr (u sale))]]))"

subsection \<open>Notions used to state the properties\<close>

text \<open>
  What one upstream forecast sample contributes: its date and its entry when its time text
  contains \<open>12:00:00\<close> and the entry can be built, nothing otherwise.
\<close>

definition midday_sample :: "json \<Rightarrow> (ustr \<times> forecast_day) option" where
  "midday_sample item =
     (case bindE (dict_get item (u ''dt_txt'') (JStr [])) (\<lambda>dt_txt.
           bindE (py_in (u ''12:00:00'') dt_txt) (\<lambda>midday.
             if midday then
               bindE (split_space_first dt_txt) (\<lambda>date.
               bindE (forecast_entry date item) (\<lambda>entry. Inr (Some (date, entry))))
             else Inr None)) of
        Inl e \<Rightarrow> None
      | Inr r \<Rightarrow> r)"

text \<open>The samples of a forecast body, and the midday ones among them, in upstream order.\<close>

definition upstream_samples :: "json \<Rightarrow> json list" where
  "upstream_samples data =
     (case bindE (dict_get data (u ''list'') (JArr [])) py_iter of
        Inl e \<Rightarrow> []
      | Inr items \<Rightarrow> items)"

definition midday_samples :: "json \<Rightarrow> (ustr \<times> forecast_day) list" where
  "midday_samples data = List.map_filter midday_sample (upstream_samples data)"

text \<open>The distinct elements of a list, each at the place of its first occurrence.\<close>

definition first_occurrences :: "'a list \<Rightarrow> 'a list" where
  "first_occurrences xs = rev (remdups (rev xs))"

text \<open>
  The sale quote of an entry of the rate list whose currency code is EUR, as the loop of
  \<open>get_exchange_rates\<close> reads it.
\<close>

definition eur_quote :: "pyenv \<Rightarrow> json \<Rightarrow> pyfloat option" where
  "eur_quote env item =
     (case dict_get item (u ''ccy'') JNull of
        Inl e \<Rightarrow> None
      | Inr ccy \<Rightarrow>
          if ccy = JStr (u ''EUR'') then
            (case bindE (dict_get item (u ''sale'') (JStr (u ''44.5''))) (py_float env) of
               Inl e \<Rightarrow> None
             | Inr r \<Rightarrow> Some r)
          else None)"

definition quote_positive :: "pyenv \<Rightarrow> json \<Rightarrow> bool" where
  "quote_positive env item = (case eur_quote env item of None \<Rightarrow> True | Some r \<Rightarrow> float_pos r)"

text \<open>
  The rate that the currency handlers read from the result of the fetch:
  \<open>rates.get("EUR", 1.0)\<close>.
\<close>

definition eur_rate_read :: "pyenv \<Rightarrow> net \<Rightarrow> exn + pyfloat" where
  "eur_rate_read env net =
     bindE (snd (get_exchange_rates env net)) (\<lambda>rates. Inr (rates_get rates (u ''EUR'') (Fin 1.0)))"

text \<open>The result of the current-weather fetch for a location.\<close>

definition weather_result :: "net \<Rightarrow> city \<Rightarrow> exn + json option" where
  "weather_result net c = snd (get_weather net (fst c) (fst (snd c)) (snd (snd c)))"

text \<open>
  The fetch for a location returns, absent or present, and a present result has the fields
  that the formatter reads.
\<close>

definition fetch_returns :: "pyenv \<Rightarrow> net \<Rightarrow> city \<Rightarrow> bool" where
  "fetch_returns env net c =
     (case weather_result net c of
        Inl e \<Rightarrow> False
      | Inr None \<Rightarrow> True
      | Inr (Some data) \<Rightarrow> (case format_weather env data of Inl e \<Rightarrow> False | Inr text \<Rightarrow> True))"

text \<open>
  The reply that belongs to a location: the formatted weather when the fetch gave data, the
  apology naming the location when it gave none.
\<close>

definition reply_matches :: "pyenv \<Rightarrow> net \<Rightarrow> city \<Rightarrow> message \<Rightarrow> bool" where
  "reply_matches env net c m =
     (case weather_result net c of
        Inr (Some data) \<Rightarrow>
          (case format_weather env data of Inl e \<Rightarrow> False | Inr text \<Rightarrow> m = WeatherReport text)
      | _ \<Rightarrow> m = WeatherApology (fst c))"



text \<open>The button payloads whose handling edits the existing message.\<close>

definition editing_actions :: "ustr list" where
  "editing_actions = [u ''weather_all'', u ''forecast_all'', u ''list_cities'', u ''currency_rates'']"

text \<open>The items that the loop of \<open>get_exchange_rates\<close> runs over, for an outcome of the request.\<close>

definition rate_items :: "http_outcome \<Rightarrow> json list" where
  "rate_items outcome =
     (case outcome of
        Response status (Some data) \<Rightarrow> (case py_iter data of Inl e \<Rightarrow> [] | Inr items \<Rightarrow> items)
      | _ \<Rightarrow> [])"

text \<open>An item that is no readable EUR entry.\<close>

definition no_eur_quote :: "pyenv \<Rightarrow> json \<Rightarrow> bool" where
  "no_eur_quote env item \<longleftrightarrow> eur_quote env item = None"

text \<open>Every EUR entry of the answer quotes a sale rate above zero.\<close>

definition quotes_positive :: "pyenv \<Rightarrow> net \<Rightarrow> bool" where
  "quotes_positive env net = list_all (quote_positive env) (rate_items (net GetRates))"

text \<open>
  The failure outcomes of the fetch: the request raises, the status is not 200, reading the
  body raises, or the list has no EUR entry.
\<close>

definition fetch_failed :: "pyenv \<Rightarrow> net \<Rightarrow> bool" where
  "fetch_failed env net =
     (case net GetRates of
        NetworkError \<Rightarrow> True
      | Response status body \<Rightarrow>
          (case rates_of_response env status body of
             Inl e \<Rightarrow> True
           | Inr rates \<Rightarrow> status \<noteq> 200 \<or> list_all (no_eur_quote env) (rate_items (net GetRates))))"

text \<open>What \<open>get_forecast\<close> returns for the body with the duplicated midday sample.\<close>


definition duplicate_midday_days :: "forecast_day list" where
  "duplicate_midday_days =
     [\<lparr>fd_date = u ''2024-01-01'', fd_temp = JInt 2, fd_feels_like = JFloat (Fin 2.5),
       fd_description = JStr (u ''light rain''), fd_icon = JStr (u ''10d''),
       fd_humidity = JInt 80, fd_wind = JFloat (Fin 4.1)\<rparr>,
      \<lparr>fd_date = u ''2024-01-02'', fd_temp = JFloat (Fin 3.5), fd_feels_like = JFloat (Fin 2.5),
       fd_description = JStr (u ''light rain''), fd_icon = JStr (u ''10d''),
       fd_humidity = JInt 80, fd_wind = JFloat (Fin 4.1)\<rparr>]"

text \<open>The name of the first configured location, and a query that says more than the name.\<close>

definition first_city_name :: ustr where
  "first_city_name = [1050, 1105, 1083, 1100, 1085]"



text \<open>A per-city payload in which the prefix occurs twice before the first configured name.\<close>

definition weather_twice :: ustr where
  "weather_twice = u ''weather_weather_'' @ first_city_name"

text \<open>
  The run of a conversion from EUR: the request to the rate provider, then the reply with
  the amount, the product of amount and rate, and the rate.
\<close>

definition eur_to_uah_run :: "pyenv \<Rightarrow> pyfloat \<Rightarrow> pyfloat \<Rightarrow> unit io" where
  "eur_to_uah_run env amount rate =
     ([Http GetRates,
       Answer (ConversionEurUah amount (float_mul env amount rate) rate) NoKeyboard],
      Inr ())"

text \<open>
  The run of a conversion from UAH: the request to the rate provider, then the reply with
  the amount, the quotient of amount and rate, and the inverse of the rate; a rate of zero
  raises in the division, before any reply.
\<close>

definition uah_to_eur_run :: "pyenv \<Rightarrow> pyfloat \<Rightarrow> pyfloat \<Rightarrow> unit io" where
  "uah_to_eur_run env amount rate =
     (if float_zero rate then ([Http GetRates], Inl ZeroDivisionError)
      else
        ([Http GetRates,
          Answer (ConversionUahEur amount (float_div env amount rate)
                    (float_div env (Fin 1) rate)) NoKeyboard],
         Inr ()))"

section \<open>Properties\<close>

lemmas io_defs = io_bind_def io_seq_def io_return_def emit_def lift_def

lemmas env_eval = example_env_def decimal_float_def strip_def ascii_space_def
  unsigned_decimal_def exponent_value_def scale10_def is_digit_def float_zero_def Let_def
  lower_def lower_cp_def

subsection \<open>C1: failures of the current-weather fetch\<close>

text \<open>
  C1. The specification: \<open>get_weather\<close> returns an absent result on any non-200 status or
  network error and never raises, so that every failure path of the weather handlers ends in
  a reply. The code has no \<open>try\<close> around the request: when the request fails in the
  network, the exception leaves \<open>get_weather\<close> and the \<open>/weather\<close> handler. On the
  configured locations with the network down, in every environment, the loading notice is
  sent, the first request is issued, and the handler ends with the exception, with no reply
  for any location.
\<close>

theorem weather_network_error_propagates:
  "cmd_weather env CITIES net_down =
     ([Answer (LoadingWeatherAll 7) NoKeyboard, Http (GetWeather 50.9375 6.9603)],
      Inl ClientError)"
  by (simp add: cmd_weather_def CITIES_def weather_reply_def get_weather_def net_down_def io_defs)

subsection \<open>C2: the fallback of the exchange-rate fetch\<close>

text \<open>
  C2. The specification: the exchange-rate fetch never fails outwardly, and on every failure
  it returns the fallback rate of 44.5 local units per 1 EUR. The fetch does return on
  every failure, with the dictionary \<open>{EUR: 1.0, UAH: 44.5}\<close>; but the success path stores
  the quote under \<open>EUR\<close> (a quote of 44.5 is read back as 44.5) and every caller reads
  \<open>rates.get("EUR", 1.0)\<close>, so the rate in force after a failure is 1.0: on a status 500
  the currency menu quotes 1 EUR = 1.00 UAH.
\<close>

theorem fallback_rate_read_as_one:
  "snd (get_exchange_rates env net_down) = Inr EXCHANGE_RATES \<and>
   snd (get_exchange_rates env (net_status 500)) = Inr EXCHANGE_RATES \<and>
   eur_rate_read example_env (net_quote ''44.5'') = Inr (Fin 44.5) \<and>
   eur_rate_read env (net_status 500) = Inr (Fin 1) \<and>
   process_callback example_env CITIES (net_status 500) (u ''currency'') =
     ([Http GetRates, Answer (RatesMenu (Fin 1) (Fin 1)) CurrencyKeyboard, Ack], Inr ())"
  by (simp add: process_callback_def rates_quote_def eur_rate_read_def get_exchange_rates_def
      rates_of_response_def EXCHANGE_RATES_def rates_get_def py_div_def net_status_def
      net_down_def net_quote_def io_defs u_def bindE_def env_eval Let_def)

subsection \<open>C3: the rate that the currency handlers divide by\<close>

lemma u_EUR_UAH: "u ''UAH'' \<noteq> u ''EUR''" "u ''EUR'' \<noteq> u ''UAH''"
  by (simp_all add: u_def)

lemma rates_get_stored:
  "rates_get (AList.update (u ''UAH'') x (AList.update (u ''EUR'') r acc)) (u ''EUR'') d = r"
  by (simp add: rates_get_def update_conv' u_EUR_UAH)

lemma rates_loop_step:
  assumes "rates_loop env (item # items) acc = Inr rates"
  obtains (other) "eur_quote env item = None" and "rates_loop env items acc = Inr rates"
  | (eur) r where "eur_quote env item = Some r" and
      "rates_loop env items (AList.update (u ''UAH'') (Fin 1) (AList.update (u ''EUR'') r acc)) =
         Inr rates"
proof -
  from assms obtain ccy where ccy: "dict_get item (u ''ccy'') JNull = Inr ccy"
    by (cases "dict_get item (u ''ccy'') JNull") (simp_all add: bindE_def)
  show ?thesis
  proof (cases "ccy = JStr (u ''EUR'')")
    case False
    with assms ccy have "rates_loop env items acc = Inr rates"
      by (simp add: bindE_def)
    moreover from ccy False have "eur_quote env item = None"
      by (simp add: eur_quote_def)
    ultimately show ?thesis by (rule other[rotated])
  next
    case True
    with assms ccy obtain sale r where
      sale: "dict_get item (u ''sale'') (JStr (u ''44.5'')) = Inr sale" and
      r: "py_float env sale = Inr r" and
      rest: "rates_loop env items
               (AList.update (u ''UAH'') (Fin 1) (AList.update (u ''EUR'') r acc)) = Inr rates"
      by (auto simp: bindE_def split: sum.splits)
    from ccy True sale r have "eur_quote env item = Some r"
      by (simp add: eur_quote_def bindE_def)
    then show ?thesis using rest by (rule eur)
  qed
qed

lemma rates_loop_positive:
  "rates_loop env items acc = Inr rates \<Longrightarrow> float_pos (rates_get acc (u ''EUR'') (Fin 1)) \<Longrightarrow>
   list_all (quote_positive env) items \<Longrightarrow> float_pos (rates_get rates (u ''EUR'') (Fin 1))"
proof (induction items arbitrary: acc)
  case Nil
  then show ?case by simp
next
  case (Cons item items)
  from Cons.prems(1) show ?case
  proof (cases rule: rates_loop_step)
    case other
    with Cons.IH Cons.prems show ?thesis by simp
  next
    case (eur r)
    with Cons.prems(3) have "float_pos r"
      by (simp add: quote_positive_def)
    then have "float_pos (rates_get (AList.update (u ''UAH'') (Fin 1)
        (AList.update (u ''EUR'') r acc)) (u ''EUR'') (Fin 1))"
      by (simp only: rates_get_stored)
    with Cons.IH eur(2) Cons.prems(3) show ?thesis by simp
  qed
qed

lemma rates_loop_no_eur:
  "rates_loop env items acc = Inr rates \<Longrightarrow> list_all (no_eur_quote env) items \<Longrightarrow> rates = acc"
proof (induction items arbitrary: acc)
  case Nil
  then show ?case by simp
next
  case (Cons item items)
  from Cons.prems(1) show ?case
  proof (cases rule: rates_loop_step)
    case other
    with Cons.IH Cons.prems show ?thesis by simp
  next
    case (eur r)
    with Cons.prems(2) show ?thesis
      by (simp add: no_eur_quote_def)
  qed
qed

lemma initial_rate: "rates_get ((u ''EUR'', x) # rest) (u ''EUR'') d = x"
  by (simp add: rates_get_def)

lemma rates_of_response_200:
  assumes "rates_of_response env 200 body = Inr rates"
  obtains data items acc where "body = Some data" and "py_iter data = Inr items" and
    "rates_loop env items acc = Inr rates" and "rates_get acc (u ''EUR'') (Fin 1) = Fin 1"
proof -
  from assms obtain data where body: "body = Some data"
    by (cases body) (simp_all add: rates_of_response_def)
  with assms obtain items where items: "py_iter data = Inr items"
    by (cases "py_iter data") (simp_all add: rates_of_response_def bindE_def)
  with assms body
  have "rates_loop env items [(u ''EUR'', Fin 1.0), (u ''UAH'', Fin 44.5)] = Inr rates"
    by (simp add: rates_of_response_def bindE_def)
  moreover have "rates_get [(u ''EUR'', Fin 1.0), (u ''UAH'', Fin 44.5)] (u ''EUR'') (Fin 1) = Fin 1"
    by (simp add: rates_get_def)
  ultimately show ?thesis using body items that by blast
qed

lemma eur_rate_read_eq:
  "eur_rate_read env net =
     Inr (rates_get (case net GetRates of
             NetworkError \<Rightarrow> EXCHANGE_RATES
           | Response status body \<Rightarrow>
               (case rates_of_response env status body of
                  Inl e \<Rightarrow> EXCHANGE_RATES
                | Inr rates \<Rightarrow> rates)) (u ''EUR'') (Fin 1))"
  by (simp add: eur_rate_read_def get_exchange_rates_def io_defs bindE_def)

lemma eur_rate_read_cases:
  obtains (fallback) "eur_rate_read env net = Inr (Fin 1)"
  | (fetched) data items acc rates where
      "net GetRates = Response 200 (Some data)" and "py_iter data = Inr items" and
      "rates_of_response env 200 (Some data) = Inr rates" and
      "rates_loop env items acc = Inr rates" and "rates_get acc (u ''EUR'') (Fin 1) = Fin 1" and
      "eur_rate_read env net = Inr (rates_get rates (u ''EUR'') (Fin 1))"
proof (cases "net GetRates")
  case NetworkError
  then have "eur_rate_read env net = Inr (Fin 1)"
    by (simp add: eur_rate_read_eq EXCHANGE_RATES_def initial_rate)
  then show ?thesis by (rule fallback)
next
  case (Response status body)
  show ?thesis
  proof (cases "rates_of_response env status body")
    case (Inl e)
    with Response have "eur_rate_read env net = Inr (Fin 1)"
      by (simp add: eur_rate_read_eq EXCHANGE_RATES_def initial_rate)
    then show ?thesis by (rule fallback)
  next
    case (Inr rates)
    show ?thesis
    proof (cases "status = 200")
      case False
      with Inr have "rates = EXCHANGE_RATES"
        by (simp add: rates_of_response_def)
      with Response Inr have "eur_rate_read env net = Inr (Fin 1)"
        by (simp add: eur_rate_read_eq EXCHANGE_RATES_def initial_rate)
      then show ?thesis by (rule fallback)
    next
      case True
      with Inr obtain data items acc where "body = Some data" and "py_iter data = Inr items"
        and "rates_loop env items acc = Inr rates"
        and "rates_get acc (u ''EUR'') (Fin 1) = Fin 1"
        by (auto elim: rates_of_response_200)
      moreover from Response Inr
      have "eur_rate_read env net = Inr (rates_get rates (u ''EUR'') (Fin 1))"
        by (simp add: eur_rate_read_eq)
      ultimately show ?thesis
        using Response Inr True by (auto intro: fetched)
    qed
  qed
qed

text \<open>
  C3, as amended. In every environment, the rate that the handlers read from the result of
  the fetch is strictly positive whenever every EUR entry of the answer quotes a sale rate
  above zero, and on every failure outcome of the fetch (request raised, status other than
  200, body unreadable, no EUR entry).
\<close>

theorem fetched_rate_positive:
  "(quotes_positive env net \<longrightarrow> (\<exists>r. eur_rate_read env net = Inr r \<and> float_pos r)) \<and>
   (fetch_failed env net \<longrightarrow> (\<exists>r. eur_rate_read env net = Inr r \<and> float_pos r))"
proof (cases env net rule: eur_rate_read_cases)
  case fallback
  then show ?thesis by simp
next
  case (fetched data items acc rates)
  have "float_pos (rates_get rates (u ''EUR'') (Fin 1))" if "quotes_positive env net"
  proof -
    from that fetched have "list_all (quote_positive env) items"
      by (simp add: quotes_positive_def rate_items_def)
    with fetched show ?thesis
      using rates_loop_positive[of env items acc rates] by simp
  qed
  moreover have "float_pos (rates_get rates (u ''EUR'') (Fin 1))" if "fetch_failed env net"
  proof -
    from that fetched have "list_all (no_eur_quote env) items"
      by (simp add: fetch_failed_def rate_items_def)
    with fetched have "rates = acc"
      using rates_loop_no_eur[of env items acc rates] by simp
    with fetched show ?thesis by simp
  qed
  ultimately show ?thesis
    using fetched by simp
qed

text \<open>
  Both hypotheses met in the example environment: a quote of 44.5 is read back as it is; a
  status 500 is a failure.
\<close>

theorem fetched_rate_positive_witness:
  "quotes_positive example_env (net_quote ''44.5'') \<and>
   eur_rate_read example_env (net_quote ''44.5'') = Inr (Fin 44.5) \<and>
   fetch_failed example_env (net_status 500) \<and>
   eur_rate_read example_env (net_status 500) = Inr (Fin 1)"
proof -
  have q: "quotes_positive example_env (net_quote ''44.5'')"
    by (simp add: quotes_positive_def rate_items_def net_quote_def quote_positive_def
        eur_quote_def bindE_def u_def env_eval)
  have f: "fetch_failed example_env (net_status 500)"
    by (simp add: fetch_failed_def net_status_def rates_of_response_def)
  have e1: "eur_rate_read example_env (net_quote ''44.5'') = Inr (Fin 44.5)"
    by (simp add: eur_rate_read_eq net_quote_def rates_of_response_def bindE_def u_def
        env_eval rates_get_def)
  have e2: "eur_rate_read example_env (net_status 500) = Inr (Fin 1)"
    by (simp add: eur_rate_read_eq net_status_def rates_of_response_def EXCHANGE_RATES_def
        rates_get_def)
  from fetched_rate_positive[of example_env "net_quote ''44.5''"]
    fetched_rate_positive[of example_env "net_status 500"] q f e1 e2
  show ?thesis by simp
qed

text \<open>
  C3 as stated fails: nothing checks the sign of a fetched quote. A 200 answer whose EUR
  entry quotes \<open>0\<close> is read as the rate 0, and \<open>1/eur_rate\<close> in \<open>/currency\<close> raises.
\<close>

theorem zero_quote_counterexample:
  "eur_rate_read example_env (net_quote ''0'') = Inr (Fin 0) \<and>
   cmd_currency example_env (net_quote ''0'') (u ''/currency'') =
     ([Http GetRates], Inl ZeroDivisionError)"
  by (simp add: eur_rate_read_eq cmd_currency_def split_ws_def is_space_def rates_quote_def
      rates_get_def py_div_def get_exchange_rates_def rates_of_response_def net_quote_def
      io_defs u_def bindE_def env_eval Let_def)

subsection \<open>C4: the days of a forecast\<close>

lemma forecast_loop_fold:
  "forecast_loop items acc = Inr daily \<Longrightarrow>
   daily = foldl (\<lambda>d kv. AList.update (fst kv) (snd kv) d) acc (List.map_filter midday_sample items)"
proof (induction items arbitrary: acc)
  case Nil
  then show ?case by simp
next
  case (Cons item items)
  from Cons.prems obtain dt_txt midday where
    dt: "dict_get item (u ''dt_txt'') (JStr []) = Inr dt_txt" and
    mid: "py_in (u ''12:00:00'') dt_txt = Inr midday"
    by (auto simp: bindE_def split: sum.splits)
  show ?case
  proof (cases midday)
    case False
    with Cons.prems dt mid have "forecast_loop items acc = Inr daily"
      by (simp add: bindE_def)
    moreover from dt mid False have "midday_sample item = None"
      by (simp add: midday_sample_def bindE_def)
    ultimately show ?thesis
      using Cons.IH by simp
  next
    case True
    with Cons.prems dt mid obtain date entry where
      date: "split_space_first dt_txt = Inr date" and
      entry: "forecast_entry date item = Inr entry" and
      rest: "forecast_loop items (AList.update date entry acc) = Inr daily"
      by (auto simp: bindE_def split: sum.splits)
    from dt mid True date entry have "midday_sample item = Some (date, entry)"
      by (simp add: midday_sample_def bindE_def)
    with Cons.IH[OF rest] show ?thesis
      by simp
  qed
qed

lemma first_occurrences_snoc:
  "first_occurrences (xs @ [x]) =
     (if x \<in> set xs then first_occurrences xs else first_occurrences xs @ [x])"
  by (simp add: first_occurrences_def)

lemma set_first_occurrences: "set (first_occurrences xs) = set xs"
  by (simp add: first_occurrences_def)

lemma distinct_first_occurrences: "distinct (first_occurrences xs)"
  by (simp add: first_occurrences_def)

lemma fold_update_keys:
  "map fst (foldl (\<lambda>d kv. AList.update (fst kv) (snd kv) d) [] kvs) = first_occurrences (map fst kvs)"
proof (induction kvs rule: rev_induct)
  case Nil
  show ?case by (simp add: first_occurrences_def)
next
  case (snoc kv kvs)
  then show ?case
    by (simp add: update_keys first_occurrences_snoc set_first_occurrences)
qed

lemma fold_update_map_of:
  "map_of (foldl (\<lambda>d kv. AList.update (fst kv) (snd kv) d) [] kvs) = map_of (rev kvs)"
proof (induction kvs rule: rev_induct)
  case Nil
  show ?case by simp
next
  case (snoc kv kvs)
  then show ?case
    by (cases kv) (simp add: update_conv')
qed

lemma midday_sample_date: "midday_sample item = Some (date, entry) \<Longrightarrow> fd_date entry = date"
  by (auto simp: midday_sample_def forecast_entry_def bindE_def split: sum.splits if_splits)

lemma map_filter_SomeD: "y \<in> set (List.map_filter f xs) \<Longrightarrow> \<exists>x\<in>set xs. f x = Some y"
  by (auto simp: List.map_filter_def)

text \<open>
  C4, as amended. For every upstream time-series on which \<open>get_forecast\<close> returns days:
  there are at most 3 of them, their calendar dates are distinct, the dates are the first 3
  dates of the midday samples in the order of their first occurrence upstream, and the entry
  of a date is the one built from the last midday sample of that date (the lookup in the
  reversed list of midday samples finds it).
\<close>

theorem forecast_days:
  assumes "net (GetForecast lat lon) = Response 200 (Some data)"
    and "snd (get_forecast net city_name lat lon) = Inr (Some days)"
  shows "length days \<le> 3 \<and>
         distinct (map fd_date days) \<and>
         map fd_date days = take 3 (first_occurrences (map fst (midday_samples data))) \<and>
         (\<forall>day\<in>set days. map_of (rev (midday_samples data)) (fd_date day) = Some day)"
proof -
  from assms have body: "forecast_of_body data = Inr days"
    by (auto simp: get_forecast_def io_defs bindE_def split: sum.splits)
  then obtain forecast_list items daily where
    fl: "dict_get data (u ''list'') (JArr []) = Inr forecast_list" and
    items: "py_iter forecast_list = Inr items" and
    loop: "forecast_loop items [] = Inr daily" and
    days: "days = take 3 (map snd daily)"
    by (auto simp: forecast_of_body_def bindE_def split: sum.splits)
  from fl items have samples: "midday_samples data = List.map_filter midday_sample items"
    by (simp add: midday_samples_def upstream_samples_def bindE_def)
  let ?ms = "midday_samples data"
  from forecast_loop_fold[OF loop] samples
  have daily: "daily = foldl (\<lambda>d kv. AList.update (fst kv) (snd kv) d) [] ?ms"
    by simp
  have keys: "map fst daily = first_occurrences (map fst ?ms)"
    unfolding daily by (rule fold_update_keys)
  have lookup: "map_of daily = map_of (rev ?ms)"
    unfolding daily by (rule fold_update_map_of)
  have dist: "distinct (map fst daily)"
    unfolding keys by (rule distinct_first_occurrences)
  have entry: "map_of (rev ?ms) k = Some e \<and> fd_date e = k" if "(k, e) \<in> set daily" for k e
  proof -
    from that dist have "map_of daily k = Some e" by simp
    with lookup have l: "map_of (rev ?ms) k = Some e" by simp
    then have "(k, e) \<in> set ?ms" by (auto dest: map_of_SomeD)
    with samples obtain item where "midday_sample item = Some (k, e)"
      by (auto dest: map_filter_SomeD)
    with l show ?thesis by (simp add: midday_sample_date)
  qed
  have dates: "map fd_date (map snd daily) = map fst daily"
    using entry by auto
  have "length days \<le> 3"
    by (simp add: days)
  moreover have d3: "map fd_date days = take 3 (first_occurrences (map fst ?ms))"
  proof -
    have "map fd_date days = take 3 (map fd_date (map snd daily))"
      unfolding days by (simp only: take_map)
    with dates keys show ?thesis by simp
  qed
  moreover have "distinct (map fd_date days)"
    unfolding d3 by (simp add: distinct_first_occurrences)
  moreover have "\<forall>day\<in>set days. map_of (rev ?ms) (fd_date day) = Some day"
  proof
    fix day assume "day \<in> set days"
    then have "day \<in> set (map snd daily)"
      unfolding days by (rule in_set_takeD)
    then obtain k where "(k, day) \<in> set daily" by auto
    from entry[OF this] show "map_of (rev ?ms) (fd_date day) = Some day" by simp
  qed
  ultimately show ?thesis by simp
qed

lemmas forecast_eval = get_forecast_def forecast_of_body_def net_first_city_def
  duplicate_midday_body_def duplicate_midday_days_def sample_item_def forecast_entry_def
  u_def bindE_def io_defs

text \<open>
  C4 as stated fails where it lets the first occurrence per date win: the assignment
  \<open>daily_forecast[date] = ...\<close> overwrites. Two midday samples of 2024-01-01, with
  temperatures 1 and then 2, give the entry with temperature 2.
\<close>

theorem last_midday_sample_counterexample:
  "snd (get_forecast net_first_city [1050, 1105, 1083, 1100, 1085] 50.9375 6.9603) =
     Inr (Some duplicate_midday_days) \<and>
   map fd_temp duplicate_midday_days = [JInt 2, JFloat (Fin 3.5)]"
  by (simp add: forecast_eval)

text \<open>The hypotheses of the theorem met on that body, answered for the first location.\<close>

theorem forecast_days_witness:
  "net_first_city (GetForecast 50.9375 6.9603) = Response 200 (Some duplicate_midday_body) \<and>
   snd (get_forecast net_first_city [1050, 1105, 1083, 1100, 1085] 50.9375 6.9603) =
     Inr (Some duplicate_midday_days) \<and>
   length duplicate_midday_days \<le> 3 \<and>
   map fd_date duplicate_midday_days = [u ''2024-01-01'', u ''2024-01-02''] \<and>
   map fd_date duplicate_midday_days =
     take 3 (first_occurrences (map fst (midday_samples duplicate_midday_body)))"
proof -
  have h1: "net_first_city (GetForecast 50.9375 6.9603) = Response 200 (Some duplicate_midday_body)"
    by (simp add: net_first_city_def)
  have h2: "snd (get_forecast net_first_city [1050, 1105, 1083, 1100, 1085] 50.9375 6.9603) =
     Inr (Some duplicate_midday_days)"
    by (simp add: forecast_eval)
  have h3: "map fd_date duplicate_midday_days = [u ''2024-01-01'', u ''2024-01-02'']"
    by (simp add: duplicate_midday_days_def)
  from forecast_days[OF h1 h2] h1 h2 h3 show ?thesis by simp
qed

subsection \<open>C5: one reply per location\<close>

lemma answers_append: "answers (xs @ ys) = answers xs @ answers ys"
  by (induction xs rule: answers.induct) simp_all

lemma edits_append: "edits (xs @ ys) = edits xs @ edits ys"
  by (induction xs rule: edits.induct) simp_all

lemma present_is_truthy:
  assumes "snd (get_weather net city_name lat lon) = Inr (Some data)"
  shows "truthy data"
proof -
  from assms obtain raw where "setitem raw (u ''name'') (JStr city_name) = Inr data"
    by (auto simp: get_weather_def io_defs bindE_def
        split: http_outcome.splits if_splits option.splits sum.splits)
  then show ?thesis
    by (cases raw) (auto simp: neq_Nil_conv dest: arg_cong[where f = "map fst"] simp: update_keys split: if_splits)
qed

lemma weather_reply_returns:
  assumes "fetch_returns env net c"
  shows "\<exists>m kb'. weather_reply env net kb (fst c) c =
            ([Http (GetWeather (fst (snd c)) (snd (snd c))), Answer m kb'], Inr ()) \<and>
          reply_matches env net c m"
proof -
  obtain city_name lat lon where c: "c = (city_name, lat, lon)"
    by (cases c) auto
  have tr: "fst (get_weather net city_name lat lon) = [Http (GetWeather lat lon)]"
    by (simp add: get_weather_def io_defs)
  show ?thesis
  proof (cases "snd (get_weather net city_name lat lon)")
    case (Inl e)
    with assms c show ?thesis
      by (simp add: fetch_returns_def weather_result_def)
  next
    case (Inr weather_data)
    show ?thesis
    proof (cases weather_data)
      case None
      with Inr tr c show ?thesis
        by (simp add: weather_reply_def reply_matches_def weather_result_def io_defs)
    next
      case (Some data)
      with Inr have "truthy data"
        by (auto intro: present_is_truthy)
      moreover from assms c Inr Some obtain report where "format_weather env data = Inr report"
        by (auto simp: fetch_returns_def weather_result_def split: sum.splits)
      ultimately show ?thesis
        using Inr Some tr c
        by (simp add: weather_reply_def reply_matches_def weather_result_def io_defs)
    qed
  qed
qed

lemma weather_loop_replies:
  assumes "list_all (fetch_returns env net) cities"
  shows "snd (for_each (\<lambda>c. weather_reply env net (kb c) (fst c) c) cities) = Inr () \<and>
         edits (fst (for_each (\<lambda>c. weather_reply env net (kb c) (fst c) c) cities)) = [] \<and>
         list_all2 (reply_matches env net) cities
           (answers (fst (for_each (\<lambda>c. weather_reply env net (kb c) (fst c) c) cities)))"
  using assms
proof (induction cities)
  case Nil
  show ?case by (simp add: io_defs)
next
  case (Cons c cities)
  from Cons.prems have "fetch_returns env net c" by simp
  from weather_reply_returns[OF this, of "kb c"] obtain m kb' where
    step: "weather_reply env net (kb c) (fst c) c =
             ([Http (GetWeather (fst (snd c)) (snd (snd c))), Answer m kb'], Inr ())" and
    m: "reply_matches env net c m"
    by blast
  from Cons have rest:
    "snd (for_each (\<lambda>c. weather_reply env net (kb c) (fst c) c) cities) = Inr ()"
    "edits (fst (for_each (\<lambda>c. weather_reply env net (kb c) (fst c) c) cities)) = []"
    "list_all2 (reply_matches env net) cities
       (answers (fst (for_each (\<lambda>c. weather_reply env net (kb c) (fst c) c) cities)))"
    by simp_all
  from step m rest show ?case
    by (simp add: io_bind_def io_seq_def)
qed

text \<open>
  C5, as amended. For every list of N locations and every pattern of fetches that return
  (absent, or present with the fields the formatter reads), the \<open>/weather\<close> command sends
  one loading notice as a new message and then exactly N replies, and the \<open>weather_all\<close>
  button edits the existing message into the loading notice, sends exactly N replies as new
  messages and acknowledges the press. In both, the replies stand in the order of the
  configured list, the formatted weather where the fetch gave data and the apology naming
  the location where it gave none; no fetch result ends the loop early.
\<close>

theorem weather_all_replies:
  assumes "list_all (fetch_returns env net) cities"
  shows "snd (cmd_weather env cities net) = Inr () \<and>
         edits (fst (cmd_weather env cities net)) = [] \<and>
         (\<exists>rs. answers (fst (cmd_weather env cities net)) = LoadingWeatherAll (length cities) # rs \<and>
               list_all2 (reply_matches env net) cities rs) \<and>
         snd (process_callback env cities net (u ''weather_all'')) = Inr () \<and>
         edits (fst (process_callback env cities net (u ''weather_all''))) =
           [LoadingWeatherAll (length cities)] \<and>
         list_all2 (reply_matches env net) cities
           (answers (fst (process_callback env cities net (u ''weather_all'')))) \<and>
         last (fst (process_callback env cities net (u ''weather_all''))) = Ack"
proof -
  note a = weather_loop_replies[OF assms, of "\<lambda>c. NoKeyboard"]
  note b = weather_loop_replies[OF assms, of "\<lambda>c. ForecastKeyboard (fst c)"]
  from a have "snd (cmd_weather env cities net) = Inr ()"
    by (simp add: cmd_weather_def io_bind_def io_seq_def emit_def)
  moreover from a have "edits (fst (cmd_weather env cities net)) = []"
    by (simp add: cmd_weather_def io_bind_def io_seq_def emit_def)
  moreover from a have "\<exists>rs. answers (fst (cmd_weather env cities net)) =
       LoadingWeatherAll (length cities) # rs \<and> list_all2 (reply_matches env net) cities rs"
    by (simp add: cmd_weather_def io_bind_def io_seq_def emit_def)
  moreover from b have "snd (process_callback env cities net (u ''weather_all'')) = Inr ()"
    by (simp add: process_callback_def io_bind_def io_seq_def emit_def)
  moreover from b have "edits (fst (process_callback env cities net (u ''weather_all''))) =
       [LoadingWeatherAll (length cities)]"
    by (simp add: process_callback_def io_bind_def io_seq_def emit_def edits_append)
  moreover from b have "list_all2 (reply_matches env net) cities
       (answers (fst (process_callback env cities net (u ''weather_all''))))"
    by (simp add: process_callback_def io_bind_def io_seq_def emit_def answers_append)
  moreover from b have "last (fst (process_callback env cities net (u ''weather_all''))) = Ack"
    by (simp add: process_callback_def io_bind_def io_seq_def emit_def)
  ultimately show ?thesis by simp
qed

lemmas weather_eval = CITIES_def weather_reply_def get_weather_def format_weather_def
  sample_weather_def emoji_of_icon_def upper_cp_def title_cp_def lower_def lower_cp_def u_def
  bindE_def io_defs checked_timestamp_def example_env_def float_zero_def

text \<open>
  C5 as stated fails on the count: with the 7 configured locations (here every fetch absent)
  the handlers emit 8 outbound messages, the loading notice and the 7 replies.
\<close>

theorem loading_notice_counterexample:
  "length CITIES = 7 \<and>
   outbound (fst (cmd_weather example_env CITIES (net_status 404))) = 8 \<and>
   outbound (fst (process_callback example_env CITIES (net_status 404) (u ''weather_all''))) = 8"
  by (simp add: outbound_def cmd_weather_def process_callback_def net_status_def weather_eval)

text \<open>
  The hypothesis met on the configured locations: the first one answers with data, the
  others with status 404.
\<close>

theorem weather_all_replies_witness:
  "list_all (fetch_returns example_env net_first_city) CITIES \<and>
   snd (cmd_weather example_env CITIES net_first_city) = Inr () \<and>
   edits (fst (process_callback example_env CITIES net_first_city (u ''weather_all''))) =
     [LoadingWeatherAll 7] \<and>
   list_all2 (reply_matches example_env net_first_city) CITIES
     (answers (fst (process_callback example_env CITIES net_first_city (u ''weather_all''))))"
proof -
  have h: "list_all (fetch_returns example_env net_first_city) CITIES"
    by (simp add: fetch_returns_def weather_result_def net_first_city_def weather_eval)
  have n: "length CITIES = 7"
    by (simp add: CITIES_def)
  from weather_all_replies[OF h] h n show ?thesis by simp
qed

subsection \<open>C6: which actions edit the existing message\<close>

lemma edits_io_bind:
  "edits (fst (io_bind m f)) =
     edits (fst m) @ (case snd m of Inl e \<Rightarrow> [] | Inr v \<Rightarrow> edits (fst (f v)))"
  by (simp add: io_bind_def edits_append split: sum.splits)

lemma edits_io_seq:
  "edits (fst (io_seq m k)) =
     edits (fst m) @ (case snd m of Inl e \<Rightarrow> [] | Inr v \<Rightarrow> edits (fst k))"
  by (simp add: io_seq_def edits_io_bind)

lemma edits_basic:
  "edits (fst (io_return v)) = []"
  "edits (fst (lift r)) = []"
  "edits (fst (emit (Http q))) = []"
  "edits (fst (emit (Answer m kb))) = []"
  "edits (fst (emit Ack)) = []"
  "edits (fst (emit (EditText m kb))) = [m]"
  by (simp_all add: io_defs)

lemma edits_get_weather: "edits (fst (get_weather net city_name lat lon)) = []"
  by (simp add: get_weather_def edits_io_seq edits_basic split: sum.splits)

lemma edits_get_forecast: "edits (fst (get_forecast net city_name lat lon)) = []"
  by (simp add: get_forecast_def edits_io_seq edits_basic split: sum.splits)

lemma edits_get_exchange_rates: "edits (fst (get_exchange_rates env net)) = []"
  by (simp add: get_exchange_rates_def edits_io_seq edits_basic split: sum.splits)

lemma edits_weather_reply: "edits (fst (weather_reply env net kb shown_name c)) = []"
  by (cases c)
     (simp add: weather_reply_def edits_io_bind edits_get_weather edits_basic
        split: sum.splits option.splits)

lemma edits_forecast_reply: "edits (fst (forecast_reply net shown_name c)) = []"
  by (cases c)
     (simp add: forecast_reply_def edits_io_bind edits_get_forecast edits_basic
        split: sum.splits option.splits)

lemma edits_for_each:
  "(\<And>x. edits (fst (body x)) = []) \<Longrightarrow> edits (fst (for_each body xs)) = []"
  by (induction xs) (simp_all add: edits_io_seq edits_basic split: sum.splits)

lemma edits_weather_button_loop: "edits (fst (weather_button_loop env net city_name cities)) = []"
  by (induction cities) (auto simp: edits_basic edits_weather_reply)

lemma edits_forecast_button_loop: "edits (fst (forecast_button_loop net city_name cities)) = []"
  by (induction cities) (auto simp: edits_basic edits_forecast_reply)

lemma edits_rates_quote: "edits (fst (rates_quote env net)) = []"
  by (simp add: rates_quote_def Let_def edits_io_bind edits_get_exchange_rates edits_basic
      split: sum.splits)

lemmas no_edits = edits_io_bind edits_io_seq edits_basic edits_weather_reply
  edits_forecast_reply edits_for_each edits_weather_button_loop edits_forecast_button_loop
  edits_rates_quote edits_get_exchange_rates

lemma action_names:
  "u ''forecast_all'' \<noteq> u ''weather_all''"
  "u ''list_cities'' \<noteq> u ''weather_all''"
  "u ''list_cities'' \<noteq> u ''forecast_all''"
  "u ''currency_rates'' \<noteq> u ''weather_all''"
  "u ''currency_rates'' \<noteq> u ''forecast_all''"
  "u ''currency_rates'' \<noteq> u ''list_cities''"
  "u ''currency_rates'' \<noteq> u ''currency''"
  "\<not> prefix (u ''weather_'') (u ''currency_rates'')"
  "\<not> prefix (u ''forecast_'') (u ''currency_rates'')"
  by (simp_all add: u_def)

lemma callback_weather_all:
  "process_callback env cities net (u ''weather_all'') =
     io_seq (emit (EditText (LoadingWeatherAll (length cities)) MainKeyboard))
       (io_seq (for_each (\<lambda>c. weather_reply env net (ForecastKeyboard (fst c)) (fst c) c) cities)
          (emit Ack))"
  by (simp add: process_callback_def)

lemma callback_forecast_all:
  "process_callback env cities net (u ''forecast_all'') =
     io_seq (emit (EditText (LoadingForecastAll (length cities)) MainKeyboard))
       (io_seq (for_each (\<lambda>c. forecast_reply net (fst c) c) cities) (emit Ack))"
  by (simp add: process_callback_def action_names)

lemma callback_list_cities:
  "process_callback env cities net (u ''list_cities'') =
     io_seq (emit (EditText (CitiesList (map fst cities)) (CitiesKeyboard (map fst cities))))
       (emit Ack)"
  by (simp add: process_callback_def action_names)

lemma callback_currency_rates:
  "process_callback env cities net (u ''currency_rates'') =
     io_bind (rates_quote env net) (\<lambda>(eur_rate, inverse).
       io_seq (emit (EditText (RatesRefreshed eur_rate inverse) CurrencyKeyboard)) (emit Ack))"
  by (simp add: process_callback_def action_names)

lemma callback_other:
  assumes "action \<notin> set editing_actions"
  shows "process_callback env cities net action =
     (if prefix (u ''weather_'') action then
        io_seq (emit (Answer (LoadingWeatherCity (replace_all (u ''weather_'') action)) NoKeyboard))
       (io_seq (weather_button_loop env net (replace_all (u ''weather_'') action) cities) (emit Ack))
      else if prefix (u ''forecast_'') action then
        io_seq (emit (Answer (LoadingForecastCity (replace_all (u ''forecast_'') action)) NoKeyboard))
       (io_seq (forecast_button_loop net (replace_all (u ''forecast_'') action) cities) (emit Ack))
      else if action = u ''currency'' then
        io_bind (rates_quote env net) (\<lambda>(eur_rate, inverse).
          io_seq (emit (Answer (RatesMenu eur_rate inverse) CurrencyKeyboard)) (emit Ack))
      else if action = u ''conv_eur_uah'' then
        io_seq (emit (Answer PromptEurUah NoKeyboard)) (emit Ack)
      else if action = u ''conv_uah_eur'' then
        io_seq (emit (Answer PromptUahEur NoKeyboard)) (emit Ack)
      else io_return ())"
proof -
  from assms have "action \<noteq> u ''weather_all''" "action \<noteq> u ''forecast_all''"
    "action \<noteq> u ''list_cities''" "action \<noteq> u ''currency_rates''"
    by (simp_all add: editing_actions_def)
  then show ?thesis
    unfolding process_callback_def Let_def by (simp only: if_False)
qed

lemma no_edits_bind:
  assumes "edits (fst m) = []" and "\<And>v. edits (fst (f v)) = []"
  shows "edits (fst (io_bind m f)) = []"
  using assms by (simp add: edits_io_bind split: sum.splits)

lemma no_edits_seq:
  assumes "edits (fst m) = []" and "edits (fst k) = []"
  shows "edits (fst (io_seq m k)) = []"
  using assms by (simp add: edits_io_seq split: sum.splits)

lemma edits_callback_other:
  assumes "action \<notin> set editing_actions"
  shows "edits (fst (process_callback env cities net action)) = []"
  unfolding callback_other[OF assms]
  by (auto intro!: no_edits_bind no_edits_seq
      simp: edits_basic edits_weather_button_loop edits_forecast_button_loop edits_rates_quote)

lemma edits_process_callback:
  "edits (fst (process_callback env cities net action)) \<noteq> [] \<Longrightarrow> action \<in> set editing_actions"
  using edits_callback_other by blast

lemma weather_all_edit:
  "\<exists>rest. fst (process_callback env cities net (u ''weather_all'')) =
           EditText (LoadingWeatherAll (length cities)) MainKeyboard # rest \<and>
         edits rest = []"
proof -
  have "edits (fst (io_seq
      (for_each (\<lambda>c. weather_reply env net (ForecastKeyboard (fst c)) (fst c) c) cities)
      (emit Ack))) = []"
    by (intro no_edits_seq edits_for_each edits_weather_reply edits_basic)
  then show ?thesis
    by (simp add: callback_weather_all io_seq_def io_bind_def emit_def)
qed

lemma forecast_all_edit:
  "\<exists>rest. fst (process_callback env cities net (u ''forecast_all'')) =
           EditText (LoadingForecastAll (length cities)) MainKeyboard # rest \<and>
         edits rest = []"
proof -
  have "edits (fst (io_seq (for_each (\<lambda>c. forecast_reply net (fst c) c) cities) (emit Ack))) = []"
    by (intro no_edits_seq edits_for_each edits_forecast_reply edits_basic)
  then show ?thesis
    by (simp add: callback_forecast_all io_seq_def io_bind_def emit_def)
qed

lemma list_cities_edit:
  "process_callback env cities net (u ''list_cities'') =
     ([EditText (CitiesList (map fst cities)) (CitiesKeyboard (map fst cities)), Ack], Inr ())"
  by (simp add: callback_list_cities io_defs)

lemma get_exchange_rates_trace:
  "\<exists>rates. get_exchange_rates env net = ([Http GetRates], Inr rates) \<and>
           eur_rate_read env net = Inr (rates_get rates (u ''EUR'') (Fin 1))"
  by (simp add: get_exchange_rates_def eur_rate_read_def io_defs bindE_def)

lemma rates_quote_eq:
  assumes "eur_rate_read env net = Inr r"
  shows "rates_quote env net =
     (if float_zero r then ([Http GetRates], Inl ZeroDivisionError)
      else ([Http GetRates], Inr (r, float_div env (Fin 1) r)))"
proof -
  from get_exchange_rates_trace[of env net] assms obtain rates where
    "get_exchange_rates env net = ([Http GetRates], Inr rates)" and
    "rates_get rates (u ''EUR'') (Fin 1) = r"
    by auto
  then show ?thesis
    by (simp add: rates_quote_def io_defs py_div_def Let_def)
qed

lemma refresh_edit:
  assumes "eur_rate_read env net = Inr r"
  shows "process_callback env cities net (u ''currency_rates'') =
     (if float_zero r then ([Http GetRates], Inl ZeroDivisionError)
      else ([Http GetRates,
             EditText (RatesRefreshed r (float_div env (Fin 1) r)) CurrencyKeyboard, Ack],
            Inr ()))"
  by (simp add: callback_currency_rates rates_quote_eq[OF assms] io_defs)

lemma commands_never_edit:
  "edits (fst (cmd_start cities)) = []"
  "edits (fst (cmd_help cities)) = []"
  "edits (fst (cmd_weather env cities net)) = []"
  "edits (fst (cmd_city env cities net msg)) = []"
  "edits (fst (cmd_near cities)) = []"
  "edits (fst (cmd_forecast cities net)) = []"
  "edits (fst (cmd_currency env net msg')) = []"
proof -
  show "edits (fst (cmd_weather env cities net)) = []"
    unfolding cmd_weather_def
    by (intro no_edits_seq edits_for_each edits_weather_reply edits_basic)
  show "edits (fst (cmd_forecast cities net)) = []"
    unfolding cmd_forecast_def
    by (intro no_edits_seq edits_for_each edits_forecast_reply edits_basic)
  show "edits (fst (cmd_start cities)) = []" "edits (fst (cmd_help cities)) = []"
    "edits (fst (cmd_near cities)) = []"
    by (simp_all add: cmd_start_def cmd_help_def cmd_near_def edits_basic)
  show "edits (fst (cmd_city env cities net msg)) = []"
    by (simp add: cmd_city_def Let_def no_edits split: option.splits)
  show "edits (fst (cmd_currency env net msg')) = []"
    by (simp add: cmd_currency_def Let_def no_edits split: sum.splits option.splits prod.splits)
qed

text \<open>
  C6, as amended. In every environment: a button action edits the existing message only if
  it is one of \<open>weather_all\<close>, \<open>forecast_all\<close>, \<open>list_cities\<close> and \<open>currency_rates\<close>.
  \<open>weather_all\<close> and \<open>forecast_all\<close> start by editing it into their loading notice and
  whatever they send after that is a new message; \<open>list_cities\<close> edits it into the city
  list and acknowledges; \<open>currency_rates\<close> fetches the rate and edits the message into the
  refreshed quote and acknowledges, unless the rate read is zero, in which case the division
  raises before anything is edited or acknowledged. No other button action and no slash
  command ever edits.
\<close>

theorem editing_actions_only:
  "(edits (fst (process_callback env cities net action)) \<noteq> [] \<longrightarrow>
      action \<in> set editing_actions) \<and>
   (\<exists>rest. fst (process_callback env cities net (u ''weather_all'')) =
            EditText (LoadingWeatherAll (length cities)) MainKeyboard # rest \<and>
          edits rest = []) \<and>
   (\<exists>rest. fst (process_callback env cities net (u ''forecast_all'')) =
            EditText (LoadingForecastAll (length cities)) MainKeyboard # rest \<and>
          edits rest = []) \<and>
   process_callback env cities net (u ''list_cities'') =
     ([EditText (CitiesList (map fst cities)) (CitiesKeyboard (map fst cities)), Ack], Inr ()) \<and>
   (\<exists>r. eur_rate_read env net = Inr r \<and>
        process_callback env cities net (u ''currency_rates'') =
          (if float_zero r then ([Http GetRates], Inl ZeroDivisionError)
           else ([Http GetRates,
                  EditText (RatesRefreshed r (float_div env (Fin 1) r)) CurrencyKeyboard, Ack],
                 Inr ()))) \<and>
   edits (fst (cmd_start cities)) = [] \<and>
   edits (fst (cmd_help cities)) = [] \<and>
   edits (fst (cmd_weather env cities net)) = [] \<and>
   edits (fst (cmd_city env cities net msg)) = [] \<and>
   edits (fst (cmd_near cities)) = [] \<and>
   edits (fst (cmd_forecast cities net)) = [] \<and>
   edits (fst (cmd_currency env net msg')) = []"
proof -
  obtain r where r: "eur_rate_read env net = Inr r"
    using get_exchange_rates_trace[of env net] by auto
  note refresh_edit[OF r, of cities]
  with r have "\<exists>r. eur_rate_read env net = Inr r \<and>
        process_callback env cities net (u ''currency_rates'') =
          (if float_zero r then ([Http GetRates], Inl ZeroDivisionError)
           else ([Http GetRates,
                  EditText (RatesRefreshed r (float_div env (Fin 1) r)) CurrencyKeyboard, Ack],
                 Inr ()))"
    by blast
  moreover have "edits (fst (process_callback env cities net action)) \<noteq> [] \<longrightarrow>
      action \<in> set editing_actions"
    using edits_process_callback by blast
  ultimately show ?thesis
    by (simp add: weather_all_edit forecast_all_edit list_cities_edit commands_never_edit)
qed

text \<open>
  C6 as stated fails: the \<open>list_cities\<close> button, which is not the rate refresh, answers
  with an edit of the existing message and nothing else.
\<close>

theorem list_cities_edit_counterexample:
  "u ''list_cities'' \<noteq> u ''currency_rates'' \<and>
   process_callback example_env CITIES net_down (u ''list_cities'') =
     ([EditText (CitiesList (map fst CITIES)) (CitiesKeyboard (map fst CITIES)), Ack], Inr ())"
proof -
  have "u ''list_cities'' \<noteq> u ''currency_rates''"
    by (simp add: u_def)
  then show ?thesis
    by (simp add: callback_list_cities io_defs)
qed

text \<open>
  The hypothesis met in the example environment: the \<open>weather_all\<close> button edits and is
  one of the four; the rate refresh after a status 500 edits the message into the quote.
\<close>

theorem editing_actions_only_witness:
  "edits (fst (process_callback example_env CITIES (net_status 404) (u ''weather_all''))) =
     [LoadingWeatherAll 7] \<and>
   u ''weather_all'' \<in> set editing_actions \<and>
   process_callback example_env CITIES (net_status 500) (u ''currency_rates'') =
     ([Http GetRates, EditText (RatesRefreshed (Fin 1) (Fin 1)) CurrencyKeyboard, Ack], Inr ())"
proof -
  have e: "edits (fst (process_callback example_env CITIES (net_status 404) (u ''weather_all''))) =
     [LoadingWeatherAll 7]"
    unfolding callback_weather_all by (simp add: net_status_def weather_eval)
  have r: "eur_rate_read example_env (net_status 500) = Inr (Fin 1)"
    by (simp add: eur_rate_read_eq net_status_def rates_of_response_def EXCHANGE_RATES_def
        rates_get_def)
  have d: "float_div example_env (Fin 1) (Fin 1) = Fin 1" "\<not> float_zero (Fin 1)"
    by (simp_all add: example_env_def float_zero_def)
  from editing_actions_only[of example_env CITIES "net_status 404" "u ''weather_all''" "[]" "[]"]
    editing_actions_only[of example_env CITIES "net_status 500" "u ''weather_all''" "[]" "[]"]
    e r d
  show ?thesis by auto
qed

subsection \<open>C7: the city lookup\<close>









subsection \<open>C9: the temperatures shown\<close>

text \<open>
  C9. The specification: the temperature and the feels-like value of every weather and
  forecast reply are rounded to the nearest integer. \<open>format_forecast\<close> rounds both;
  \<open>format_weather\<close> interpolates them as received. For a reading of 12.34 and 10.5 degrees
  the weather reply of \<open>/city\<close> shows 12.34 and 10.5.
\<close>

theorem weather_temperature_not_rounded:
  "cmd_city example_env CITIES net_first_city (u ''/city '' @ first_city_name) =
     ([Http (GetWeather 50.9375 6.9603),
       Answer
         (WeatherReport
            \<lparr>wt_emoji = Sun, wt_city = JStr first_city_name,
             wt_temp = JFloat (Fin 12.34), wt_feels_like = JFloat (Fin 10.5),
             wt_description = u ''Clear sky'',
             wt_humidity = JInt 71, wt_pressure = JInt 1012,
             wt_wind_speed = JFloat (Fin 3.6), wt_updated = 1700000000\<rparr>)
         NoKeyboard],
      Inr ())"
  by (simp add: first_city_name_def cmd_city_def net_first_city_def weather_eval
      split_max1_def is_space_def)

subsection \<open>C10: a per-city button for a name that is not configured\<close>

lemma weather_button_loop_no_match:
  "city_name \<notin> fst ` set cities \<Longrightarrow> weather_button_loop env net city_name cities = io_return ()"
  by (induction cities) auto

lemma forecast_button_loop_no_match:
  "city_name \<notin> fst ` set cities \<Longrightarrow> forecast_button_loop net city_name cities = io_return ()"
  by (induction cities) auto

lemma weather_prefix_not_editing:
  assumes "prefix (u ''weather_'') action" and "action \<noteq> u ''weather_all''"
  shows "action \<notin> set editing_actions"
proof -
  have "\<not> prefix (u ''weather_'') (u ''forecast_all'')" "\<not> prefix (u ''weather_'') (u ''list_cities'')"
    "\<not> prefix (u ''weather_'') (u ''currency_rates'')"
    by (simp_all add: u_def)
  with assms show ?thesis
    by (auto simp: editing_actions_def)
qed

lemma forecast_prefix_not_editing:
  assumes "prefix (u ''forecast_'') action" and "action \<noteq> u ''forecast_all''"
  shows "action \<notin> set editing_actions \<and> \<not> prefix (u ''weather_'') action"
proof -
  have "\<not> prefix (u ''forecast_'') (u ''weather_all'')" "\<not> prefix (u ''forecast_'') (u ''list_cities'')"
    "\<not> prefix (u ''forecast_'') (u ''currency_rates'')"
    by (simp_all add: u_def)
  with assms have "action \<notin> set editing_actions"
    by (auto simp: editing_actions_def)
  moreover from assms(1) have "\<not> prefix (u ''weather_'') action"
    by (cases action) (simp_all add: u_def)
  ultimately show ?thesis by simp
qed

text \<open>
  C10, as amended. In every environment, for every button payload of a per-city button,
  one that starts with \<open>weather_\<close> and is not the payload \<open>weather_all\<close> of the
  all-locations button (that starts with \<open>forecast_\<close> and is not \<open>forecast_all\<close>): when
  the payload with every occurrence of that prefix removed, which is the name that the
  handler looks up, equals no configured location name, the handler sends the loading
  message, then neither a reply nor an apology nor a request, and acknowledges the press.
\<close>

theorem unknown_city_button:
  "(prefix (u ''weather_'') action \<and> action \<noteq> u ''weather_all'' \<and>
    replace_all (u ''weather_'') action \<notin> fst ` set cities \<longrightarrow>
      process_callback env cities net action =
        ([Answer (LoadingWeatherCity (replace_all (u ''weather_'') action)) NoKeyboard, Ack],
         Inr ())) \<and>
   (prefix (u ''forecast_'') action \<and> action \<noteq> u ''forecast_all'' \<and>
    replace_all (u ''forecast_'') action \<notin> fst ` set cities \<longrightarrow>
      process_callback env cities net action =
        ([Answer (LoadingForecastCity (replace_all (u ''forecast_'') action)) NoKeyboard, Ack],
         Inr ()))"
proof (intro conjI impI)
  assume a: "prefix (u ''weather_'') action \<and> action \<noteq> u ''weather_all'' \<and>
    replace_all (u ''weather_'') action \<notin> fst ` set cities"
  then have "action \<notin> set editing_actions"
    by (simp add: weather_prefix_not_editing)
  from callback_other[OF this] a
  show "process_callback env cities net action =
        ([Answer (LoadingWeatherCity (replace_all (u ''weather_'') action)) NoKeyboard, Ack],
         Inr ())"
    by (simp add: weather_button_loop_no_match io_defs)
next
  assume a: "prefix (u ''forecast_'') action \<and> action \<noteq> u ''forecast_all'' \<and>
    replace_all (u ''forecast_'') action \<notin> fst ` set cities"
  then have n: "action \<notin> set editing_actions" "\<not> prefix (u ''weather_'') action"
    using forecast_prefix_not_editing[of action] by simp_all
  from callback_other[OF n(1)] n(2) a
  show "process_callback env cities net action =
        ([Answer (LoadingForecastCity (replace_all (u ''forecast_'') action)) NoKeyboard, Ack],
         Inr ())"
    by (simp add: forecast_button_loop_no_match io_defs)
qed

text \<open>
  C10 as stated fails, because the handler strips the prefix with \<open>replace\<close>, which removes
  every occurrence: in the payload \<open>weather_weather_<first name>\<close> what follows the prefix,
  \<open>weather_<first name>\<close>, is no configured name, yet the handler looks up the first
  location, requests its weather and (here on a status 404) sends the apology.
\<close>

theorem repeated_prefix_counterexample:
  "prefix (u ''weather_'') weather_twice \<and>
   drop (length (u ''weather_'')) weather_twice = u ''weather_'' @ first_city_name \<and>
   u ''weather_'' @ first_city_name \<notin> fst ` set CITIES \<and>
   process_callback example_env CITIES (net_status 404) weather_twice =
     ([Answer (LoadingWeatherCity first_city_name) NoKeyboard,
       Http (GetWeather 50.9375 6.9603),
       Answer (WeatherApology first_city_name) NoKeyboard,
       Ack], Inr ())"
proof -
  have p: "prefix (u ''weather_'') weather_twice"
    "drop (length (u ''weather_'')) weather_twice = u ''weather_'' @ first_city_name"
    "u ''weather_'' @ first_city_name \<notin> fst ` set CITIES"
    "replace_all (u ''weather_'') weather_twice = first_city_name"
    "weather_twice \<noteq> u ''weather_all''"
    by (simp_all add: weather_twice_def first_city_name_def u_def CITIES_def)
  then have "weather_twice \<notin> set editing_actions"
    by (simp add: weather_prefix_not_editing)
  from callback_other[OF this, of example_env CITIES "net_status 404"] p
  have "process_callback example_env CITIES (net_status 404) weather_twice =
     ([Answer (LoadingWeatherCity first_city_name) NoKeyboard,
       Http (GetWeather 50.9375 6.9603),
       Answer (WeatherApology first_city_name) NoKeyboard,
       Ack], Inr ())"
    by (simp add: first_city_name_def CITIES_def weather_reply_def get_weather_def
        net_status_def io_defs)
  with p show ?thesis by simp
qed

text \<open>The hypotheses met by the payloads \<open>weather_nowhere\<close> and \<open>forecast_nowhere\<close>.\<close>

theorem unknown_city_button_witness:
  "process_callback example_env CITIES net_down (u ''weather_nowhere'') =
     ([Answer (LoadingWeatherCity (u ''nowhere'')) NoKeyboard, Ack], Inr ()) \<and>
   process_callback example_env CITIES net_down (u ''forecast_nowhere'') =
     ([Answer (LoadingForecastCity (u ''nowhere'')) NoKeyboard, Ack], Inr ())"
proof -
  have w: "prefix (u ''weather_'') (u ''weather_nowhere'')"
    "u ''weather_nowhere'' \<noteq> u ''weather_all''"
    "replace_all (u ''weather_'') (u ''weather_nowhere'') = u ''nowhere''"
    by (simp_all add: u_def)
  have f: "prefix (u ''forecast_'') (u ''forecast_nowhere'')"
    "u ''forecast_nowhere'' \<noteq> u ''forecast_all''"
    "replace_all (u ''forecast_'') (u ''forecast_nowhere'') = u ''nowhere''"
    by (simp_all add: u_def)
  have n: "u ''nowhere'' \<notin> fst ` set CITIES"
    by (simp add: u_def CITIES_def)
  from unknown_city_button[of "u ''weather_nowhere''" CITIES example_env net_down]
    unknown_city_button[of "u ''forecast_nowhere''" CITIES example_env net_down] w f n
  show ?thesis by simp
qed

subsection \<open>C8: the arguments of the currency command\<close>

lemma upper_codes: "upper (u ''UAH'') = u ''UAH''" "upper (u ''EUR'') = u ''EUR''"
  by (simp_all add: upper_def upper_cp_def u_def)

lemma currency_bad_amount:
  assumes "split_ws msg = cmd # a # rest" and "float_of_str env (replace_char 44 46 a) = None"
  shows "cmd_currency env net msg = ([Answer UsageBadFormat NoKeyboard], Inr ())"
  using assms by (simp add: cmd_currency_def emit_def)

lemma currency_unsupported:
  assumes "split_ws msg = cmd # a # tok # rest"
    and "float_of_str env (replace_char 44 46 a) = Some amount"
    and "upper tok \<noteq> u ''EUR''" and "upper tok \<noteq> u ''UAH''"
  shows "cmd_currency env net msg = ([Answer UsageUnsupported NoKeyboard], Inr ())"
  using assms by (simp add: cmd_currency_def emit_def)

lemma currency_convert:
  assumes "split_ws msg = cmd # a # rest"
    and "float_of_str env (replace_char 44 46 a) = Some amount"
    and "eur_rate_read env net = Inr rate"
    and "currency = (case rest of [] \<Rightarrow> if float_ge amount 100 then u ''UAH'' else u ''EUR''
                     | tok # rest' \<Rightarrow> upper tok)"
  shows "currency = u ''EUR'' \<Longrightarrow> cmd_currency env net msg = eur_to_uah_run env amount rate"
    and "currency = u ''UAH'' \<Longrightarrow> cmd_currency env net msg = uah_to_eur_run env amount rate"
proof -
  from get_exchange_rates_trace[of env net] assms(3) obtain rates where
    rates: "get_exchange_rates env net = ([Http GetRates], Inr rates)" and
    rate: "rates_get rates (u ''EUR'') (Fin 1) = rate"
    by auto
  show "cmd_currency env net msg = eur_to_uah_run env amount rate" if "currency = u ''EUR''"
    using that assms(1,2,4) rates rate u_EUR_UAH
    by (cases rest)
       (simp_all add: cmd_currency_def eur_to_uah_run_def convert_currency_def io_defs Let_def
          split: if_splits)
  show "cmd_currency env net msg = uah_to_eur_run env amount rate" if "currency = u ''UAH''"
    using that assms(1,2,4) rates rate u_EUR_UAH
    by (cases rest)
       (simp_all add: cmd_currency_def uah_to_eur_run_def convert_currency_def py_div_def
          bindE_def io_defs Let_def split: if_splits)
qed

text \<open>
  C8. In every environment, for a message whose words are the command, the amount and what
  follows, and with the rate that the fetch gives:
  \<^item> the amount is \<open>float\<close> of the amount word with every comma replaced by a dot; when
    that raises, the reply is the usage message for a bad format, with no request to the
    rate provider and no exception;
  \<^item> a currency word other than EUR and UAH (in any case) is answered with the usage message
    for unsupported currencies, again with no request and no exception;
  \<^item> with no currency word, an amount below 100 is converted from EUR to UAH, as with the
    word EUR, and an amount of at least 100 from UAH to EUR, as with the word UAH: one
    request to the rate provider, then the reply with that amount, the converted amount and
    the rate (the conversion from UAH divides by the rate and raises when the rate is zero).
\<close>

theorem currency_arguments:
  "(split_ws msg = cmd # a # rest \<and> float_of_str env (replace_char 44 46 a) = None \<longrightarrow>
      cmd_currency env net msg = ([Answer UsageBadFormat NoKeyboard], Inr ())) \<and>
   (split_ws msg = cmd # a # tok # rest' \<and>
    float_of_str env (replace_char 44 46 a) = Some amount \<and>
    upper tok \<noteq> u ''EUR'' \<and> upper tok \<noteq> u ''UAH'' \<longrightarrow>
      cmd_currency env net msg = ([Answer UsageUnsupported NoKeyboard], Inr ())) \<and>
   (split_ws msg = [cmd, a] \<and> float_of_str env (replace_char 44 46 a) = Some amount \<and>
    eur_rate_read env net = Inr rate \<and> \<not> float_ge amount 100 \<longrightarrow>
      cmd_currency env net msg = eur_to_uah_run env amount rate) \<and>
   (split_ws msg = [cmd, a] \<and> float_of_str env (replace_char 44 46 a) = Some amount \<and>
    eur_rate_read env net = Inr rate \<and> float_ge amount 100 \<longrightarrow>
      cmd_currency env net msg = uah_to_eur_run env amount rate) \<and>
   (split_ws msg = cmd # a # tok # rest' \<and>
    float_of_str env (replace_char 44 46 a) = Some amount \<and>
    eur_rate_read env net = Inr rate \<and> upper tok = u ''EUR'' \<longrightarrow>
      cmd_currency env net msg = eur_to_uah_run env amount rate) \<and>
   (split_ws msg = cmd # a # tok # rest' \<and>
    float_of_str env (replace_char 44 46 a) = Some amount \<and>
    eur_rate_read env net = Inr rate \<and> upper tok = u ''UAH'' \<longrightarrow>
      cmd_currency env net msg = uah_to_eur_run env amount rate)"
proof (intro conjI impI; elim conjE)
  assume "split_ws msg = cmd # a # rest" "float_of_str env (replace_char 44 46 a) = None"
  then show "cmd_currency env net msg = ([Answer UsageBadFormat NoKeyboard], Inr ())"
    by (rule currency_bad_amount)
next
  assume "split_ws msg = cmd # a # tok # rest'"
    "float_of_str env (replace_char 44 46 a) = Some amount"
    "upper tok \<noteq> u ''EUR''" "upper tok \<noteq> u ''UAH''"
  then show "cmd_currency env net msg = ([Answer UsageUnsupported NoKeyboard], Inr ())"
    by (rule currency_unsupported)
next
  assume "split_ws msg = [cmd, a]" "float_of_str env (replace_char 44 46 a) = Some amount"
    "eur_rate_read env net = Inr rate" "\<not> float_ge amount 100"
  then show "cmd_currency env net msg = eur_to_uah_run env amount rate"
    by (intro currency_convert(1)[where rest = "[]" and currency = "u ''EUR''"]) simp_all
next
  assume "split_ws msg = [cmd, a]" "float_of_str env (replace_char 44 46 a) = Some amount"
    "eur_rate_read env net = Inr rate" "float_ge amount 100"
  then show "cmd_currency env net msg = uah_to_eur_run env amount rate"
    by (intro currency_convert(2)[where rest = "[]" and currency = "u ''UAH''"]) simp_all
next
  assume "split_ws msg = cmd # a # tok # rest'"
    "float_of_str env (replace_char 44 46 a) = Some amount"
    "eur_rate_read env net = Inr rate" "upper tok = u ''EUR''"
  then show "cmd_currency env net msg = eur_to_uah_run env amount rate"
    by (intro currency_convert(1)[where rest = "tok # rest'" and currency = "u ''EUR''"])
       simp_all
next
  assume "split_ws msg = cmd # a # tok # rest'"
    "float_of_str env (replace_char 44 46 a) = Some amount"
    "eur_rate_read env net = Inr rate" "upper tok = u ''UAH''"
  then show "cmd_currency env net msg = uah_to_eur_run env amount rate"
    by (intro currency_convert(2)[where rest = "tok # rest'" and currency = "u ''UAH''"])
       simp_all
qed

lemmas parse_eval = split_ws_def is_space_def replace_char_def u_def env_eval

text \<open>
  The hypotheses met in the example environment, the rate provider quoting 44.5:
  \<open>/currency abc\<close>, \<open>/currency 5 usd\<close>, \<open>/currency 50\<close>, \<open>/currency 1000\<close>,
  \<open>/currency 12,5 eur\<close> and \<open>/currency 89 UAH\<close>.
\<close>

theorem currency_arguments_witness:
  "cmd_currency example_env (net_quote ''44.5'') (u ''/currency abc'') =
     ([Answer UsageBadFormat NoKeyboard], Inr ()) \<and>
   cmd_currency example_env (net_quote ''44.5'') (u ''/currency 5 usd'') =
     ([Answer UsageUnsupported NoKeyboard], Inr ()) \<and>
   cmd_currency example_env (net_quote ''44.5'') (u ''/currency 50'') =
     ([Http GetRates, Answer (ConversionEurUah (Fin 50) (Fin 2225) (Fin 44.5)) NoKeyboard],
      Inr ()) \<and>
   cmd_currency example_env (net_quote ''44.5'') (u ''/currency 1000'') =
     ([Http GetRates,
       Answer (ConversionUahEur (Fin 1000) (Fin (1000 / 44.5)) (Fin (1 / 44.5))) NoKeyboard],
      Inr ()) \<and>
   cmd_currency example_env (net_quote ''44.5'') (u ''/currency 12,5 eur'') =
     ([Http GetRates, Answer (ConversionEurUah (Fin 12.5) (Fin 556.25) (Fin 44.5)) NoKeyboard],
      Inr ()) \<and>
   cmd_currency example_env (net_quote ''44.5'') (u ''/currency 89 UAH'') =
     ([Http GetRates, Answer (ConversionUahEur (Fin 89) (Fin 2) (Fin (1 / 44.5))) NoKeyboard],
      Inr ())"
proof -
  note n = currency_arguments[where env = example_env and net = "net_quote ''44.5''"
      and rate = "Fin 44.5"]
  have rate: "eur_rate_read example_env (net_quote ''44.5'') = Inr (Fin 44.5)"
    by (simp add: eur_rate_read_eq net_quote_def rates_of_response_def bindE_def u_def
        env_eval rates_get_def)
  have s1: "split_ws (u ''/currency abc'') = [u ''/currency'', u ''abc'']"
    "float_of_str example_env (replace_char 44 46 (u ''abc'')) = None"
    by (simp_all add: parse_eval)
  have s2: "split_ws (u ''/currency 5 usd'') = [u ''/currency'', u ''5'', u ''usd'']"
    "float_of_str example_env (replace_char 44 46 (u ''5'')) = Some (Fin 5)"
    "upper (u ''usd'') \<noteq> u ''EUR''" "upper (u ''usd'') \<noteq> u ''UAH''"
    by (simp_all add: parse_eval upper_def upper_cp_def)
  have s3: "split_ws (u ''/currency 50'') = [u ''/currency'', u ''50'']"
    "float_of_str example_env (replace_char 44 46 (u ''50'')) = Some (Fin 50)"
    "\<not> float_ge (Fin 50) 100"
    by (simp_all add: parse_eval)
  have s4: "split_ws (u ''/currency 1000'') = [u ''/currency'', u ''1000'']"
    "float_of_str example_env (replace_char 44 46 (u ''1000'')) = Some (Fin 1000)"
    "float_ge (Fin 1000) 100"
    by (simp_all add: parse_eval)
  have s5: "split_ws (u ''/currency 12,5 eur'') = [u ''/currency'', u ''12,5'', u ''eur'']"
    "float_of_str example_env (replace_char 44 46 (u ''12,5'')) = Some (Fin 12.5)"
    "upper (u ''eur'') = u ''EUR''"
    by (simp_all add: parse_eval upper_def upper_cp_def)
  have s6: "split_ws (u ''/currency 89 UAH'') = [u ''/currency'', u ''89'', u ''UAH'']"
    "float_of_str example_env (replace_char 44 46 (u ''89'')) = Some (Fin 89)"
    "upper (u ''UAH'') = u ''UAH''"
    by (simp_all add: parse_eval upper_def upper_cp_def)
  have r3: "eur_to_uah_run example_env (Fin 50) (Fin 44.5) =
     ([Http GetRates, Answer (ConversionEurUah (Fin 50) (Fin 2225) (Fin 44.5)) NoKeyboard],
      Inr ())"
    by (simp add: eur_to_uah_run_def example_env_def)
  have r4: "uah_to_eur_run example_env (Fin 1000) (Fin 44.5) =
     ([Http GetRates,
       Answer (ConversionUahEur (Fin 1000) (Fin (1000 / 44.5)) (Fin (1 / 44.5))) NoKeyboard],
      Inr ())"
    by (simp add: uah_to_eur_run_def example_env_def float_zero_def)
  have r5: "eur_to_uah_run example_env (Fin 12.5) (Fin 44.5) =
     ([Http GetRates, Answer (ConversionEurUah (Fin 12.5) (Fin 556.25) (Fin 44.5)) NoKeyboard],
      Inr ())"
    by (simp add: eur_to_uah_run_def example_env_def)
  have r6: "uah_to_eur_run example_env (Fin 89) (Fin 44.5) =
     ([Http GetRates, Answer (ConversionUahEur (Fin 89) (Fin 2) (Fin (1 / 44.5))) NoKeyboard],
      Inr ())"
    by (simp add: uah_to_eur_run_def example_env_def float_zero_def)
  from n[where msg = "u ''/currency abc''" and cmd = "u ''/currency''" and a = "u ''abc''"
      and rest = "[]"] s1
  have c1: "cmd_currency example_env (net_quote ''44.5'') (u ''/currency abc'') =
     ([Answer UsageBadFormat NoKeyboard], Inr ())"
    by blast
  from n[where msg = "u ''/currency 5 usd''" and cmd = "u ''/currency''" and a = "u ''5''"
      and tok = "u ''usd''" and rest' = "[]" and amount = "Fin 5"] s2
  have c2: "cmd_currency example_env (net_quote ''44.5'') (u ''/currency 5 usd'') =
     ([Answer UsageUnsupported NoKeyboard], Inr ())"
    by blast
  from n[where msg = "u ''/currency 50''" and cmd = "u ''/currency''" and a = "u ''50''"
      and amount = "Fin 50"] s3 rate
  have c3: "cmd_currency example_env (net_quote ''44.5'') (u ''/currency 50'') =
     eur_to_uah_run example_env (Fin 50) (Fin 44.5)"
    by blast
  from n[where msg = "u ''/currency 1000''" and cmd = "u ''/currency''" and a = "u ''1000''"
      and amount = "Fin 1000"] s4 rate
  have c4: "cmd_currency example_env (net_quote ''44.5'') (u ''/currency 1000'') =
     uah_to_eur_run example_env (Fin 1000) (Fin 44.5)"
    by blast
  from n[where msg = "u ''/currency 12,5 eur''" and cmd = "u ''/currency''"
      and a = "u ''12,5''" and tok = "u ''eur''" and rest' = "[]" and amount = "Fin 12.5"]
    s5 rate
  have c5: "cmd_currency example_env (net_quote ''44.5'') (u ''/currency 12,5 eur'') =
     eur_to_uah_run example_env (Fin 12.5) (Fin 44.5)"
    by blast
  from n[where msg = "u ''/currency 89 UAH''" and cmd = "u ''/currency''"
      and a = "u ''89''" and tok = "u ''UAH''" and rest' = "[]" and amount = "Fin 89"]
    s6 rate
  have c6: "cmd_currency example_env (net_quote ''44.5'') (u ''/currency 89 UAH'') =
     uah_to_eur_run example_env (Fin 89) (Fin 44.5)"
    by blast
  from c1 c2 c3 c4 c5 c6 r3 r4 r5 r6 show ?thesis by simp
qed

end
